theory Spec2Isabelle
  imports Main
begin

section \<open>Python values, objects and exceptions\<close>

text \<open>
  The exceptions the modelled code can raise. \<open>Raised\<close> stands for any exception raised
  by user code (a receiver or a dispatcher hook).
\<close>

datatype error = TypeError | AttributeError | IndexError | KeyError | Raised string

text \<open>
  The values that travel through a send: positional arguments are a tuple of values,
  keyword arguments a dictionary from names to values, and a receiver returns a value.
\<close>

datatype pyval =
    VNone
  | VBool bool
  | VInt int
  | VStr string
  | VTuple "pyval list"
  | VDict "(string \<times> pyval) list"

type_synonym pyargs = "pyval list"
type_synonym pykwargs = "(string \<times> pyval) list"

text \<open>
  A Python object as the library observes it. \<open>obj_id\<close> is \<open>id(obj)\<close>; \<open>has_call\<close> is
  \<open>hasattr(obj, '__call__')\<close>; \<open>self_attr\<close> is present when the object has \<open>__self__\<close>
  and holds \<open>id(obj.__self__)\<close> together with whether that instance supports weak
  references; \<open>func_attr\<close> is \<open>id(obj.__func__)\<close> when the attribute exists;
  \<open>name_attr\<close> is \<open>obj.__name__\<close> when the attribute exists: the string, and the
  identity of the string object when the attribute returns a stored string (a Python
  function does), or \<open>None\<close> when the string is made anew at each access (a built-in
  function or method does that); \<open>weakrefable\<close> says whether \<open>weakref.ref(obj)\<close> is
  accepted; \<open>body\<close> is what calling the object does: it returns a value or raises.
\<close>

record pyobj =
  obj_id :: nat
  has_call :: bool
  self_attr :: "(nat \<times> bool) option"
  func_attr :: "nat option"
  name_attr :: "(string \<times> nat option) option"
  weakrefable :: bool
  body :: "pyargs \<Rightarrow> pykwargs \<Rightarrow> error + pyval"

text \<open>\<open>receiver(*args, **kwargs)\<close>: an object without \<open>__call__\<close> is not callable.\<close>

definition call :: "pyobj \<Rightarrow> pyargs \<Rightarrow> pykwargs \<Rightarrow> error + pyval" where
  "call obj args kwargs = (if has_call obj then body obj args kwargs else Inl TypeError)"

definition is_method :: "pyobj \<Rightarrow> bool" where
  "is_method obj \<longleftrightarrow> has_call obj \<and> self_attr obj \<noteq> None"

section \<open>References and the ordered weak set\<close>

text \<open>
  The result of \<open>WeakSet._ref_id\<close>: the integer \<open>id(obj)\<close> for a plain callable, a pair
  of integers for a method. An integer never equals a tuple. The argument \<open>n\<close> is the
  address the runtime gives a name string that is made for this call; \<open>id\<close> of such a
  string is that address.
\<close>

datatype ref_id = IdOne nat | IdPair nat nat

definition ref_id :: "pyobj \<Rightarrow> nat \<Rightarrow> error + ref_id" where
  "ref_id obj n =
     (if is_method obj then
        (case self_attr obj of
           None \<Rightarrow> Inl AttributeError
         | Some (sid, _) \<Rightarrow>
             (case func_attr obj of
                Some fid \<Rightarrow> Inr (IdPair sid fid)
              | None \<Rightarrow>
                  (case name_attr obj of
                     None \<Rightarrow> Inl AttributeError
                   | Some (_, Some nid) \<Rightarrow> Inr (IdPair sid nid)
                   | Some (_, None) \<Rightarrow> Inr (IdPair sid n))))
      else Inr (IdOne (obj_id obj)))"

text \<open>
  The three reference classes. Every reference stored by \<open>WeakSet.add\<close> gets the attribute
  \<open>ref_id\<close> assigned right after its construction; the last field holds it.
  \<^item> \<open>WeakRef obj rid\<close>: \<open>weakref.ref\<close> to \<open>obj\<close> with the set's \<open>_remove_ref\<close> as callback;
  \<^item> \<open>WeakMeth name inst rid\<close>: the name \<open>obj.__name__\<close> and a weak reference to the
    instance \<open>obj.__self__\<close> (identity \<open>inst\<close>) with the same callback; the method itself
    is not kept;
  \<^item> \<open>StrongRef name obj rid\<close>: holds \<open>obj\<close> itself; its callback argument is ignored.
\<close>

datatype ref =
    WeakRef pyobj ref_id
  | WeakMeth string nat ref_id
  | StrongRef string pyobj ref_id

fun stored_id :: "ref \<Rightarrow> ref_id" where
  "stored_id (WeakRef obj rid) = rid"
| "stored_id (WeakMeth name inst rid) = rid"
| "stored_id (StrongRef name obj rid) = rid"

text \<open>The object whose death clears the reference; a strong reference has none.\<close>

fun weak_target :: "ref \<Rightarrow> nat option" where
  "weak_target (WeakRef obj rid) = Some (obj_id obj)"
| "weak_target (WeakMeth name inst rid) = Some inst"
| "weak_target (StrongRef name obj rid) = None"

text \<open>
  What the library reads of the rest of the program at a moment: \<open>alive\<close> says which
  objects are alive, and \<open>getattr\<close> is attribute lookup by name on a live instance: it
  gives the value of the attribute (\<open>None\<close> when the value is Python's \<open>None\<close>) or
  raises, \<open>AttributeError\<close> when the instance has no attribute of that name.
\<close>

record env =
  alive :: "nat \<Rightarrow> bool"
  getattr :: "nat \<Rightarrow> string \<Rightarrow> error + pyobj option"

text \<open>
  Calling a reference: a cleared weak reference returns \<open>None\<close>;
  \<open>WeakMeth.__call__\<close> returns \<open>getattr(inst, self.name)\<close> for a live instance.
\<close>

fun call_ref :: "env \<Rightarrow> ref \<Rightarrow> error + pyobj option" where
  "call_ref e (WeakRef obj rid) = Inr (if alive e (obj_id obj) then Some obj else None)"
| "call_ref e (WeakMeth name inst rid) = (if alive e inst then getattr e inst name else Inr None)"
| "call_ref e (StrongRef name obj rid) = Inr (Some obj)"

definition WeakRef_init :: "pyobj \<Rightarrow> ref_id \<Rightarrow> error + ref" where
  "WeakRef_init obj rid = (if weakrefable obj then Inr (WeakRef obj rid) else Inl TypeError)"

definition WeakMeth_init :: "pyobj \<Rightarrow> ref_id \<Rightarrow> error + ref" where
  "WeakMeth_init obj rid =
     (case name_attr obj of
        None \<Rightarrow> Inl AttributeError
      | Some (name, _) \<Rightarrow>
          (case self_attr obj of
             None \<Rightarrow> Inl AttributeError
           | Some (inst, inst_weakrefable) \<Rightarrow>
               if inst_weakrefable then Inr (WeakMeth name inst rid) else Inl TypeError))"

definition StrongRef_init :: "pyobj \<Rightarrow> ref_id \<Rightarrow> error + ref" where
  "StrongRef_init obj rid =
     (case name_attr obj of
        None \<Rightarrow> Inl AttributeError
      | Some (name, _) \<Rightarrow> Inr (StrongRef name obj rid))"

text \<open>
  \<open>WeakSet\<close>: two parallel lists. A method that raises half-way leaves the set as it was
  at that moment, so every mutating method returns the set together with the exception,
  if any.
\<close>

record weakset =
  refs :: "ref list"
  ids :: "ref_id list"

definition WeakSet_empty :: weakset where
  "WeakSet_empty = \<lparr>refs = [], ids = []\<rparr>"

text \<open>\<open>list.index\<close> of an element that is known to be in the list.\<close>

fun index :: "'a list \<Rightarrow> 'a \<Rightarrow> nat" where
  "index [] x = 0"
| "index (y # ys) x = (if y = x then 0 else Suc (index ys x))"

text \<open>\<open>list.pop(i)\<close> for \<open>i \<ge> 0\<close>: \<open>None\<close> is the \<open>IndexError\<close> of an index out of range.\<close>

definition pop :: "'a list \<Rightarrow> nat \<Rightarrow> 'a list option" where
  "pop xs i = (if i < length xs then Some (take i xs @ drop (Suc i) xs) else None)"

text \<open>
  A Python iterator, as its consumer sees it: the items it yields and, when the
  generator behind it raises, the exception that ends the iteration.
\<close>

type_synonym 'a iterator = "'a list \<times> error option"

text \<open>\<open>WeakSet.__iter__\<close>: every reference is called; \<open>None\<close> is skipped.\<close>

fun iter_refs :: "env \<Rightarrow> ref list \<Rightarrow> pyobj iterator" where
  "iter_refs e [] = ([], None)"
| "iter_refs e (r # rs) =
     (case call_ref e r of
        Inl x \<Rightarrow> ([], Some x)
      | Inr None \<Rightarrow> iter_refs e rs
      | Inr (Some obj) \<Rightarrow> (case iter_refs e rs of (objs, stop) \<Rightarrow> (obj # objs, stop)))"

definition iter :: "env \<Rightarrow> weakset \<Rightarrow> pyobj iterator" where
  "iter e ws = iter_refs e (refs ws)"

text \<open>
  The body that \<open>WeakSet._remove_ref\<close> and \<open>WeakSet.discard\<close> share once the
  identity is known: return if it is not in \<open>_ids\<close>; otherwise pop its first index from
  \<open>_ids\<close> and then the same index from \<open>_refs\<close>.
\<close>

definition remove_id :: "weakset \<Rightarrow> ref_id \<Rightarrow> weakset \<times> error option" where
  "remove_id ws rid =
     (if rid \<notin> set (ids ws) then (ws, None)
      else
        let i = index (ids ws) rid in
        (case pop (ids ws) i of
           None \<Rightarrow> (ws, Some IndexError)
         | Some ids' \<Rightarrow>
             (case pop (refs ws) i of
                None \<Rightarrow> (ws\<lparr>ids := ids'\<rparr>, Some IndexError)
              | Some refs' \<Rightarrow> (ws\<lparr>ids := ids', refs := refs'\<rparr>, None))))"

text \<open>\<open>WeakSet._remove_ref\<close>: the callback reads the identity stored on the reference.\<close>

definition remove_ref :: "weakset \<Rightarrow> ref \<Rightarrow> weakset \<times> error option" where
  "remove_ref ws r = remove_id ws (stored_id r)"

text \<open>
  \<open>WeakSet.add\<close> and \<open>WeakSet.discard\<close> call \<open>_ref_id\<close> once; \<open>n\<close> is the address of
  a name string made in that call.
\<close>

definition add :: "weakset \<Rightarrow> pyobj \<Rightarrow> bool \<Rightarrow> nat \<Rightarrow> weakset \<times> error option" where
  "add ws obj strong n =
     (case ref_id obj n of
        Inl e \<Rightarrow> (ws, Some e)
      | Inr rid \<Rightarrow>
          if rid \<in> set (ids ws) then (ws, None)
          else
            let ws1 = ws\<lparr>ids := ids ws @ [rid]\<rparr> in
            (case (if strong then StrongRef_init obj rid
                   else if is_method obj then WeakMeth_init obj rid
                   else WeakRef_init obj rid) of
               Inl e \<Rightarrow> (ws1, Some e)
             | Inr r \<Rightarrow> (ws1\<lparr>refs := refs ws1 @ [r]\<rparr>, None)))"

definition discard :: "weakset \<Rightarrow> pyobj \<Rightarrow> nat \<Rightarrow> weakset \<times> error option" where
  "discard ws obj n =
     (case ref_id obj n of
        Inl e \<Rightarrow> (ws, Some e)
      | Inr rid \<Rightarrow> remove_id ws rid)"

text \<open>
  \<open>WeakSet.__init__\<close> with an iterator: every item is added weakly, as it is yielded; an
  exception, of an add or of the iterator, leaves the constructor and the half-built set
  is lost. \<open>names i\<close> is the address of a name string made in the add of item \<open>i\<close>.
\<close>

fun add_all :: "weakset \<Rightarrow> pyobj list \<Rightarrow> (nat \<Rightarrow> nat) \<Rightarrow> error + weakset" where
  "add_all ws [] names = Inr ws"
| "add_all ws (item # items) names =
     (case add ws item False (names 0) of
        (ws', Some e) \<Rightarrow> Inl e
      | (ws', None) \<Rightarrow> add_all ws' items (\<lambda>i. names (Suc i)))"

fun WeakSet_init :: "pyobj iterator \<Rightarrow> (nat \<Rightarrow> nat) \<Rightarrow> error + weakset" where
  "WeakSet_init (items, stop) names =
     (case add_all WeakSet_empty items names of
        Inl e \<Rightarrow> Inl e
      | Inr ws \<Rightarrow> (case stop of None \<Rightarrow> Inr ws | Some e \<Rightarrow> Inl e))"

section \<open>Context and Dispatcher\<close>

record Context =
  ctx_identifier :: string
  ctx_receivers :: weakset
  ctx_args :: pyargs
  ctx_kwargs :: pykwargs
  ctx_results :: "pyval list"

text \<open>
  \<open>Context.__init__(self, identifier, receivers, *args, **kwargs)\<close>: \<open>args\<close> is the tuple
  of the positional arguments after \<open>receivers\<close>, \<open>kwargs\<close> the keyword arguments.
\<close>

definition Context_init ::
  "string \<Rightarrow> pyobj iterator \<Rightarrow> pyargs \<Rightarrow> pykwargs \<Rightarrow> (nat \<Rightarrow> nat) \<Rightarrow> error + Context" where
  "Context_init identifier receivers args kwargs names =
     (case WeakSet_init receivers names of
        Inl e \<Rightarrow> Inl e
      | Inr ws \<Rightarrow>
          Inr \<lparr>ctx_identifier = identifier, ctx_receivers = ws, ctx_args = args,
               ctx_kwargs = kwargs, ctx_results = []\<rparr>)"

text \<open>
  A dispatcher may carry the hooks \<open>before_dispatch\<close> and \<open>after_dispatch\<close>
  (\<open>hasattr\<close> decides). A hook receives the mutable context: it returns it, possibly
  changed, or raises.
\<close>

record dispatcher =
  before_dispatch :: "(Context \<Rightarrow> error + Context) option"
  after_dispatch :: "(Context \<Rightarrow> error + Context) option"

definition DEFAULT_DISPATCHER :: dispatcher where
  "DEFAULT_DISPATCHER = \<lparr>before_dispatch = None, after_dispatch = None\<rparr>"

text \<open>What a send does, in order: hook calls with the context they were given, and calls
  of receivers with the arguments they were given.\<close>

datatype event =
    Before Context
  | Called pyobj pyargs pykwargs
  | After Context

text \<open>
  A call \<open>f(a, b, *args, **kwargs)\<close> of a function with the named parameters \<open>params\<close>
  raises \<open>TypeError\<close> (multiple values for an argument) when a keyword argument has the
  name of one of them.
\<close>

definition collides :: "string list \<Rightarrow> pykwargs \<Rightarrow> bool" where
  "collides params kwargs \<longleftrightarrow> list_ex (\<lambda>k. k \<in> set (map fst kwargs)) params"

text \<open>
  \<open>Dispatcher.dispatch(self, identifier, receiver, *args, **kwargs)\<close>:
  \<open>return receiver(*args, **kwargs)\<close>. The receiver is called only when the call of
  \<open>dispatch\<close> itself binds its arguments.
\<close>

definition Dispatcher_dispatch ::
  "string \<Rightarrow> pyobj \<Rightarrow> pyargs \<Rightarrow> pykwargs \<Rightarrow> event list \<times> (error + pyval)" where
  "Dispatcher_dispatch identifier receiver args kwargs =
     (if collides [''self'', ''identifier'', ''receiver''] kwargs then ([], Inl TypeError)
      else ([Called receiver args kwargs], call receiver args kwargs))"

text \<open>The loop of \<open>Dispatcher._dispatch\<close> over the receivers that \<open>ctx.receivers\<close> yields.\<close>

fun call_receivers ::
  "string \<Rightarrow> pyobj list \<Rightarrow> pyargs \<Rightarrow> pykwargs \<Rightarrow> Context \<Rightarrow> event list \<times> (error + Context)" where
  "call_receivers identifier [] args kwargs ctx = ([], Inr ctx)"
| "call_receivers identifier (receiver # rest) args kwargs ctx =
     (case Dispatcher_dispatch identifier receiver args kwargs of
        (tr, Inl e) \<Rightarrow> (tr, Inl e)
      | (tr, Inr result) \<Rightarrow>
          (case call_receivers identifier rest args kwargs
                  (ctx\<lparr>ctx_results := ctx_results ctx @ [result]\<rparr>) of
             (tr', out) \<Rightarrow> (tr @ tr', out)))"

definition finish_dispatch :: "dispatcher \<Rightarrow> Context \<Rightarrow> event list \<times> (error + pyval list)" where
  "finish_dispatch d ctx =
     (case after_dispatch d of
        None \<Rightarrow> ([], Inr (ctx_results ctx))
      | Some hook \<Rightarrow>
          (case hook ctx of
             Inl e \<Rightarrow> ([After ctx], Inl e)
           | Inr ctx' \<Rightarrow> ([After ctx], Inr (ctx_results ctx'))))"

text \<open>
  The loop and what follows it. When the iteration of \<open>ctx.receivers\<close> raises, it does so
  after the receivers it yielded before have been called.
\<close>

definition run_receivers ::
  "dispatcher \<Rightarrow> env \<Rightarrow> string \<Rightarrow> pyargs \<Rightarrow> pykwargs \<Rightarrow> Context
     \<Rightarrow> event list \<times> (error + pyval list)" where
  "run_receivers d e identifier args kwargs ctx =
     (case iter e (ctx_receivers ctx) of
        (rs, stop) \<Rightarrow>
          (case call_receivers identifier rs args kwargs ctx of
             (tr, Inl x) \<Rightarrow> (tr, Inl x)
           | (tr, Inr ctx') \<Rightarrow>
               (case stop of
                  Some x \<Rightarrow> (tr, Inl x)
                | None \<Rightarrow> (case finish_dispatch d ctx' of (tr', out) \<Rightarrow> (tr @ tr', out)))))"

text \<open>
  \<open>Dispatcher._dispatch(self, identifier, receivers, *args, **kwargs)\<close>. Its first
  statement is \<open>ctx = Context(identifier, receivers, args, kwargs)\<close>: the tuple \<open>args\<close> and
  the dictionary \<open>kwargs\<close> are passed as two positional arguments. \<open>names\<close> gives the
  addresses of the name strings made while the Context's WeakSet is filled.
\<close>

definition Dispatcher__dispatch ::
  "dispatcher \<Rightarrow> env \<Rightarrow> string \<Rightarrow> pyobj iterator \<Rightarrow> pyargs \<Rightarrow> pykwargs \<Rightarrow> (nat \<Rightarrow> nat)
     \<Rightarrow> event list \<times> (error + pyval list)" where
  "Dispatcher__dispatch d e identifier receivers args kwargs names =
     (if collides [''self'', ''identifier'', ''receivers''] kwargs then ([], Inl TypeError)
      else
        (case Context_init identifier receivers [VTuple args, VDict kwargs] [] names of
           Inl x \<Rightarrow> ([], Inl x)
         | Inr ctx \<Rightarrow>
             (case before_dispatch d of
                None \<Rightarrow> run_receivers d e identifier args kwargs ctx
              | Some hook \<Rightarrow>
                  (case hook ctx of
                     Inl x \<Rightarrow> ([Before ctx], Inl x)
                   | Inr ctx' \<Rightarrow>
                       (case run_receivers d e identifier args kwargs ctx' of
                          (tr, out) \<Rightarrow> (Before ctx # tr, out))))))"

section \<open>Channels and the Band registry\<close>

text \<open>
  \<open>id(parent)\<close>: the identity of \<open>None\<close>, or the identity of an object, which is never that
  of \<open>None\<close>.
\<close>

datatype pyid = NoneId | ObjId nat

text \<open>
  An owner object, as \<open>Channel.__init__\<close> and \<open>Band.channel\<close> observe it: its identity,
  its truth value and whether \<open>weakref.proxy\<close> accepts it.
\<close>

record owner =
  owner_id :: nat
  owner_truthy :: bool
  owner_weakrefable :: bool

fun id_of :: "owner option \<Rightarrow> pyid" where
  "id_of None = NoneId"
| "id_of (Some ow) = ObjId (owner_id ow)"

type_synonym key = "string \<times> pyid"

text \<open>
  A Channel object: \<open>parent\<close> is \<open>None\<close>, a proxy of the owner or the (falsy) owner
  itself; \<open>receivers\<close> is its WeakSet, an object of its own with identity
  \<open>receivers_id\<close>.
\<close>

record channel =
  "identifier" :: string
  parent :: "owner option"
  receivers_id :: nat
  receivers :: weakset

definition bound :: "channel \<Rightarrow> bool" where
  "bound chan \<longleftrightarrow> parent chan \<noteq> None"

text \<open>
  \<open>Channel.__init__\<close>, with the address \<open>s\<close> the runtime gives the new WeakSet.
  \<open>weakref.proxy(parent)\<close> raises \<open>TypeError\<close> for an object without weak-reference
  support.
\<close>

definition Channel_init :: "string \<Rightarrow> owner option \<Rightarrow> nat \<Rightarrow> error + channel" where
  "Channel_init ident parent_arg s =
     (let chan = \<lparr>identifier = ident, parent = parent_arg, receivers_id = s,
                  receivers = WeakSet_empty\<rparr>
      in case parent_arg of
           None \<Rightarrow> Inr chan
         | Some ow \<Rightarrow>
             if owner_truthy ow \<and> \<not> owner_weakrefable ow then Inl TypeError else Inr chan)"

text \<open>
  \<open>Channel.connect\<close> and \<open>Channel.disconnect\<close>; \<open>n\<close> is the address of a name string
  made in the call.
\<close>

definition connect :: "channel \<Rightarrow> pyobj \<Rightarrow> bool \<Rightarrow> nat \<Rightarrow> channel \<times> error option" where
  "connect chan obj strong n =
     (case add (receivers chan) obj strong n of (ws, e) \<Rightarrow> (chan\<lparr>receivers := ws\<rparr>, e))"

definition disconnect :: "channel \<Rightarrow> pyobj \<Rightarrow> nat \<Rightarrow> channel \<times> error option" where
  "disconnect chan obj n =
     (case discard (receivers chan) obj n of (ws, e) \<Rightarrow> (chan\<lparr>receivers := ws\<rparr>, e))"

text \<open>
  The weak reference the Band keeps to a Channel: the address it points to and the
  attribute \<open>key\<close> assigned to it in \<open>Band.channel\<close>.
\<close>

record chan_ref =
  ref_target :: nat
  ref_key :: key

text \<open>
  \<open>by_parent\<close> is a \<open>defaultdict(dict)\<close> and \<open>by_identifier\<close> a \<open>defaultdict(list)\<close>:
  total functions whose default is the empty dictionary and the empty list.
\<close>

record band =
  dispatcher :: dispatcher
  channels :: "key \<rightharpoonup> chan_ref"
  by_parent :: "pyid \<Rightarrow> string \<rightharpoonup> key"
  by_identifier :: "string \<Rightarrow> key list"

definition Band_init :: "dispatcher option \<Rightarrow> band" where
  "Band_init d =
     \<lparr>dispatcher = (case d of None \<Rightarrow> DEFAULT_DISPATCHER | Some d' \<Rightarrow> d'),
      channels = Map.empty, by_parent = (\<lambda>_. Map.empty), by_identifier = (\<lambda>_. [])\<rparr>"

text \<open>
  The store: one Band and the Channel objects that are alive, by address. A Channel
  whose address is not in \<open>heap\<close> has been collected.
\<close>

record world =
  band :: band
  heap :: "nat \<rightharpoonup> channel"

definition world_init :: world where
  "world_init = \<lparr>band = Band_init None, heap = Map.empty\<rparr>"

text \<open>Calling the Band's weak reference to a Channel: the object, or \<open>None\<close>.\<close>

definition deref :: "world \<Rightarrow> chan_ref \<Rightarrow> (nat \<times> channel) option" where
  "deref w r = (case heap w (ref_target r) of None \<Rightarrow> None | Some chan \<Rightarrow> Some (ref_target r, chan))"

definition remove_channel :: "band \<Rightarrow> chan_ref \<Rightarrow> band" where
  "remove_channel b r =
     (case ref_key r of
        (ident, parent_id) \<Rightarrow>
          let b1 = (if ref_key r \<in> set (by_identifier b ident)
                    then b\<lparr>by_identifier :=
                              (by_identifier b)(ident := remove1 (ref_key r) (by_identifier b ident))\<rparr>
                    else b);
              b2 = b1\<lparr>by_parent :=
                         (by_parent b1)(parent_id := (by_parent b1 parent_id)(ident := None))\<rparr>
          in b2\<lparr>channels := (channels b2)(ref_key r := None)\<rparr>)"

text \<open>
  \<open>Band.channel\<close>. The pair \<open>(a, s)\<close> holds the addresses the runtime would give a new
  Channel and its WeakSet. The result is what \<open>self.channels[key]()\<close> returns, with the
  world after the call.
\<close>

definition Band_channel ::
  "world \<Rightarrow> string \<Rightarrow> owner option \<Rightarrow> nat \<times> nat \<Rightarrow> error + ((nat \<times> channel) option \<times> world)" where
  "Band_channel w ident parent_arg alloc =
     (let k = (ident, id_of parent_arg) in
      case channels (band w) k of
        Some r \<Rightarrow> Inr (deref w r, w)
      | None \<Rightarrow>
          (case Channel_init ident parent_arg (snd alloc) of
             Inl e \<Rightarrow> Inl e
           | Inr chan \<Rightarrow>
               let r = \<lparr>ref_target = fst alloc, ref_key = k\<rparr>;
                   b = band w;
                   b' = b\<lparr>channels := (channels b)(k \<mapsto> r),
                          by_parent := (by_parent b)(id_of parent_arg :=
                                          (by_parent b (id_of parent_arg))(ident \<mapsto> k)),
                          by_identifier := (by_identifier b)(ident := by_identifier b ident @ [k])\<rparr>;
                   w' = w\<lparr>band := b', heap := (heap w)(fst alloc \<mapsto> chan)\<rparr>
               in Inr (deref w' r, w')))"

text \<open>
  The Channel registered under \<open>k\<close> is collected: it leaves the heap and the callback of
  the Band's weak reference runs.
\<close>

definition collect :: "world \<Rightarrow> key \<Rightarrow> world" where
  "collect w k =
     (case channels (band w) k of
        None \<Rightarrow> w
      | Some r \<Rightarrow> w\<lparr>band := remove_channel (band w) r, heap := (heap w)(ref_target r := None)\<rparr>)"

text \<open>
  \<open>Band.get_channel_receivers\<close>, a generator of WeakSet objects (identity and
  contents). \<open>a\<close> is the address of \<open>chan\<close>. In the loop, a missing key raises
  \<open>KeyError\<close> and a dead reference gives \<open>None\<close>, whose attribute \<open>receivers\<close> does not
  exist.
\<close>

type_synonym group = "nat \<times> weakset"

fun other_groups :: "world \<Rightarrow> nat \<Rightarrow> key list \<Rightarrow> group iterator" where
  "other_groups w a [] = ([], None)"
| "other_groups w a (k # ks) =
     (case channels (band w) k of
        None \<Rightarrow> ([], Some KeyError)
      | Some r \<Rightarrow>
          (case deref w r of
             None \<Rightarrow> ([], Some AttributeError)
           | Some (a', other_chan) \<Rightarrow>
               if a' = a then other_groups w a ks
               else (case other_groups w a ks of
                       (gs, stop) \<Rightarrow> ((receivers_id other_chan, receivers other_chan) # gs, stop))))"

definition get_channel_receivers :: "world \<Rightarrow> nat \<Rightarrow> channel \<Rightarrow> group iterator" where
  "get_channel_receivers w a chan =
     (if bound chan then
        (case channels (band w) (identifier chan, NoneId) of
           None \<Rightarrow> ([(receivers_id chan, receivers chan)], None)
         | Some r \<Rightarrow>
             (case deref w r of
                None \<Rightarrow> ([(receivers_id chan, receivers chan)], None)
              | Some (a', any_chan) \<Rightarrow>
                  ([(receivers_id chan, receivers chan),
                    (receivers_id any_chan, receivers any_chan)], None)))
      else
        (case other_groups w a (by_identifier (band w) (identifier chan)) of
           (gs, stop) \<Rightarrow> ((receivers_id chan, receivers chan) # gs, stop)))"

text \<open>
  \<open>Channel.get_receivers\<close>: the live receivers of every group, group after group. An
  exception in the iteration of a group ends the generator there.
\<close>

fun flatten :: "env \<Rightarrow> group list \<Rightarrow> error option \<Rightarrow> pyobj iterator" where
  "flatten e [] stop = ([], stop)"
| "flatten e (g # gs) stop =
     (case iter e (snd g) of
        (objs, Some x) \<Rightarrow> (objs, Some x)
      | (objs, None) \<Rightarrow> (case flatten e gs stop of (objs', stop') \<Rightarrow> (objs @ objs', stop')))"

definition get_receivers :: "world \<Rightarrow> env \<Rightarrow> nat \<Rightarrow> channel \<Rightarrow> pyobj iterator" where
  "get_receivers w e a chan =
     (case get_channel_receivers w a chan of (gs, stop) \<Rightarrow> flatten e gs stop)"

text \<open>
  \<open>Band.dispatch(self, identifier, receivers, *args, **kwargs)\<close> and
  \<open>Channel.send(self, *args, **kwargs)\<close>.
\<close>

definition Band_dispatch ::
  "world \<Rightarrow> env \<Rightarrow> string \<Rightarrow> pyobj iterator \<Rightarrow> pyargs \<Rightarrow> pykwargs \<Rightarrow> (nat \<Rightarrow> nat)
     \<Rightarrow> event list \<times> (error + pyval list)" where
  "Band_dispatch w e ident rs args kwargs names =
     (if collides [''self'', ''identifier'', ''receivers''] kwargs then ([], Inl TypeError)
      else Dispatcher__dispatch (dispatcher (band w)) e ident rs args kwargs names)"

definition Channel_send ::
  "world \<Rightarrow> env \<Rightarrow> nat \<Rightarrow> channel \<Rightarrow> pyargs \<Rightarrow> pykwargs \<Rightarrow> (nat \<Rightarrow> nat)
     \<Rightarrow> event list \<times> (error + pyval list)" where
  "Channel_send w e a chan args kwargs names =
     (if collides [''self''] kwargs then ([], Inl TypeError)
      else Band_dispatch w e (identifier chan) (get_receivers w e a chan) args kwargs names)"

text \<open>
  A WeakSet seen as an item of another WeakSet: it has no \<open>__call__\<close>, no \<open>__self__\<close> and
  no \<open>__name__\<close>, and it supports weak references.
\<close>

definition group_obj :: "group \<Rightarrow> pyobj" where
  "group_obj g =
     \<lparr>obj_id = fst g, has_call = False, self_attr = None, func_attr = None,
      name_attr = None, weakrefable = True, body = (\<lambda>args kwargs. Inl TypeError)\<rparr>"

text \<open>
  \<open>Band.send(self, identifier, *args, **kwargs)\<close>; \<open>parent_arg\<close> is what
  \<open>kwargs.pop('parent', None)\<close> returns and \<open>kwargs\<close> the other keyword arguments. It hands
  the generator of \<open>get_channel_receivers\<close> to \<open>Band.dispatch\<close> as it is: the items are
  the WeakSet objects.
\<close>

definition Band_send ::
  "world \<Rightarrow> env \<Rightarrow> string \<Rightarrow> pyargs \<Rightarrow> owner option \<Rightarrow> pykwargs \<Rightarrow> nat \<times> nat \<Rightarrow> (nat \<Rightarrow> nat)
     \<Rightarrow> world \<times> event list \<times> (error + pyval list)" where
  "Band_send w e ident args parent_arg kwargs alloc names =
     (if collides [''self'', ''identifier''] kwargs then (w, [], Inl TypeError)
      else
        (case Band_channel w ident parent_arg alloc of
           Inl x \<Rightarrow> (w, [], Inl x)
         | Inr (None, w') \<Rightarrow> (w', [], Inl AttributeError)
         | Inr (Some (a, chan), w') \<Rightarrow>
             (case get_channel_receivers w' a chan of
                (gs, stop) \<Rightarrow>
                  (case Band_dispatch w' e ident (map group_obj gs, stop) args kwargs names of
                     (tr, out) \<Rightarrow> (w', tr, out)))))"

section \<open>Invariants, the environment and example objects\<close>

text \<open>
  The death of the object \<open>dead\<close>, seen from one WeakSet: the runtime calls the callback
  of every weak reference to it, the most recently created first. A strong reference has
  no callback. An exception in a callback is reported and dropped.
\<close>

definition clear_target :: "nat \<Rightarrow> weakset \<Rightarrow> weakset" where
  "clear_target dead ws =
     foldr (\<lambda>r s. fst (remove_ref s r)) (filter (\<lambda>r. weak_target r = Some dead) (refs ws)) ws"

text \<open>
  Example objects: a plain function returning \<open>v\<close>; a callable without \<open>__name__\<close>, such
  as a \<open>functools.partial\<close> object; a bound method of a built-in instance, such as
  \<open>[].append\<close>, whose instance does not support weak references; a built-in function,
  such as \<open>len\<close>, whose \<open>__self__\<close> is the module \<open>builtins\<close> (identity \<open>m\<close>), which
  supports weak references; a function that raises. The two built-in callables have no
  \<open>__func__\<close> and make their name string anew at each access.
\<close>

definition plain_function :: "nat \<Rightarrow> pyval \<Rightarrow> pyobj" where
  "plain_function i v =
     \<lparr>obj_id = i, has_call = True, self_attr = None, func_attr = None,
      name_attr = Some (''f'', Some (1000 + i)), weakrefable = True,
      body = (\<lambda>args kwargs. Inr v)\<rparr>"

definition partial_object :: "nat \<Rightarrow> pyobj" where
  "partial_object i =
     \<lparr>obj_id = i, has_call = True, self_attr = None, func_attr = None,
      name_attr = None, weakrefable = True, body = (\<lambda>args kwargs. Inr VNone)\<rparr>"

definition builtin_method :: "nat \<Rightarrow> nat \<Rightarrow> pyobj" where
  "builtin_method i inst =
     \<lparr>obj_id = i, has_call = True, self_attr = Some (inst, False), func_attr = None,
      name_attr = Some (''append'', None), weakrefable = True,
      body = (\<lambda>args kwargs. Inr VNone)\<rparr>"

definition builtin_function :: "nat \<Rightarrow> nat \<Rightarrow> pyval \<Rightarrow> pyobj" where
  "builtin_function i m v =
     \<lparr>obj_id = i, has_call = True, self_attr = Some (m, True), func_attr = None,
      name_attr = Some (''len'', None), weakrefable = True,
      body = (\<lambda>args kwargs. Inr v)\<rparr>"

definition raising_function :: "nat \<Rightarrow> string \<Rightarrow> pyobj" where
  "raising_function i msg =
     \<lparr>obj_id = i, has_call = True, self_attr = None, func_attr = None,
      name_attr = Some (''g'', Some (1000 + i)), weakrefable = True,
      body = (\<lambda>args kwargs. Inl (Raised msg))\<rparr>"

text \<open>
  Example environments: every object is alive and no instance is asked for an attribute;
  every object is alive and the attribute \<open>len\<close> of an instance is a built-in function;
  every object but one is alive.
\<close>

definition all_alive :: env where
  "all_alive = \<lparr>alive = (\<lambda>i. True), getattr = (\<lambda>inst name. Inl AttributeError)\<rparr>"

definition builtins_env :: "nat \<Rightarrow> pyval \<Rightarrow> env" where
  "builtins_env i v =
     \<lparr>alive = (\<lambda>i. True),
      getattr = (\<lambda>inst name. if name = ''len'' then Inr (Some (builtin_function i inst v))
                              else Inl AttributeError)\<rparr>"

definition all_but :: "nat \<Rightarrow> env" where
  "all_but dead = \<lparr>alive = (\<lambda>i. i \<noteq> dead), getattr = (\<lambda>inst name. Inl AttributeError)\<rparr>"

text \<open>A dispatcher with both hooks; the hooks look at the context and change nothing.\<close>

definition observing_dispatcher :: dispatcher where
  "observing_dispatcher = \<lparr>before_dispatch = Some Inr, after_dispatch = Some Inr\<rparr>"

text \<open>
  What can happen to a world. \<open>Channel\<close> is a call of \<open>Band.channel\<close> (also the one
  inside \<open>Band.send\<close>); when it creates a Channel, the address the runtime gives it is
  not that of a live Channel. \<open>Collect\<close> is the collection of the Channel registered under
  a key. \<open>Connect\<close> and \<open>Disconnect\<close> are calls on a live Channel, given by its address,
  with the address of a name string made in the call; the set they leave behind is kept
  also when they raise. \<open>Dies\<close> is the death of an object that receiver sets may
  reference weakly.
\<close>

datatype action =
    Channel string "owner option" "nat \<times> nat"
  | Collect key
  | Connect nat pyobj bool nat
  | Disconnect nat pyobj nat
  | Dies nat

fun step :: "world \<Rightarrow> action \<Rightarrow> world option" where
  "step w (Channel ident parent_arg alloc) =
     (if channels (band w) (ident, id_of parent_arg) = None \<and> heap w (fst alloc) \<noteq> None then None
      else (case Band_channel w ident parent_arg alloc of
              Inl e \<Rightarrow> Some w
            | Inr (c, w') \<Rightarrow> Some w'))"
| "step w (Collect k) = Some (collect w k)"
| "step w (Connect a obj strong n) =
     (case heap w a of
        None \<Rightarrow> None
      | Some chan \<Rightarrow> Some (w\<lparr>heap := (heap w)(a \<mapsto> fst (connect chan obj strong n))\<rparr>))"
| "step w (Disconnect a obj n) =
     (case heap w a of
        None \<Rightarrow> None
      | Some chan \<Rightarrow> Some (w\<lparr>heap := (heap w)(a \<mapsto> fst (disconnect chan obj n))\<rparr>))"
| "step w (Dies dead) =
     Some (w\<lparr>heap := (\<lambda>a. map_option (\<lambda>chan. chan\<lparr>receivers := clear_target dead (receivers chan)\<rparr>)
                                      (heap w a))\<rparr>)"

fun run :: "world \<Rightarrow> action list \<Rightarrow> world option" where
  "run w [] = Some w"
| "run w (act # acts) = (case step w act of None \<Rightarrow> None | Some w' \<Rightarrow> run w' acts)"

text \<open>The worlds that the operations reach from a new Band.\<close>

definition reachable :: "world \<Rightarrow> bool" where
  "reachable w \<longleftrightarrow> (\<exists>d acts. run \<lparr>band = Band_init d, heap = Map.empty\<rparr> acts = Some w)"

text \<open>
  The registry invariant, in four parts: every weak reference of \<open>channels\<close> sits under
  its own key and points to a live Channel with the identifier and owner of that key;
  every live Channel is registered under its key; \<open>by_parent\<close> maps an owner and an
  identifier to their key exactly when the key is registered; the list of an identifier
  in \<open>by_identifier\<close> holds the registered keys of that identifier, each once.
\<close>

definition refs_ok :: "world \<Rightarrow> bool" where
  "refs_ok w \<longleftrightarrow>
     (\<forall>k r. channels (band w) k = Some r \<longrightarrow>
        ref_key r = k \<and>
        (\<exists>chan. heap w (ref_target r) = Some chan \<and> identifier chan = fst k \<and>
                id_of (parent chan) = snd k))"

definition heap_ok :: "world \<Rightarrow> bool" where
  "heap_ok w \<longleftrightarrow>
     (\<forall>a chan. heap w a = Some chan \<longrightarrow>
        (\<exists>r. channels (band w) (identifier chan, id_of (parent chan)) = Some r \<and> ref_target r = a))"

definition by_parent_ok :: "band \<Rightarrow> bool" where
  "by_parent_ok b \<longleftrightarrow>
     (\<forall>p i. by_parent b p i = (if (i, p) \<in> dom (channels b) then Some (i, p) else None))"

definition by_identifier_ok :: "band \<Rightarrow> bool" where
  "by_identifier_ok b \<longleftrightarrow>
     (\<forall>i. distinct (by_identifier b i) \<and>
          set (by_identifier b i) = {k \<in> dom (channels b). fst k = i})"

definition consistent :: "world \<Rightarrow> bool" where
  "consistent w \<longleftrightarrow> refs_ok w \<and> heap_ok w \<and> by_parent_ok (band w) \<and> by_identifier_ok (band w)"

text \<open>The keys each of the three indices refers to.\<close>

definition keys_by_key :: "band \<Rightarrow> key set" where
  "keys_by_key b = dom (channels b)"

definition keys_by_parent :: "band \<Rightarrow> key set" where
  "keys_by_parent b = {k. \<exists>p i. by_parent b p i = Some k}"

definition keys_by_identifier :: "band \<Rightarrow> key set" where
  "keys_by_identifier b = {k. \<exists>i. k \<in> set (by_identifier b i)}"

text \<open>An owner \<open>Channel.__init__\<close> accepts: \<open>None\<close>, a falsy object, or an object
  that supports weak references.\<close>

definition acceptable_owner :: "owner option \<Rightarrow> bool" where
  "acceptable_owner p \<longleftrightarrow>
     (case p of None \<Rightarrow> True | Some ow \<Rightarrow> owner_truthy ow \<longrightarrow> owner_weakrefable ow)"

text \<open>
  An example world: on a new Band, the unbound Channel \<open>started\<close> and the Channels
  \<open>started\<close> of two owners are created in this order, and each gets one receiver.
\<close>

definition example_owner :: "nat \<Rightarrow> owner" where
  "example_owner i = \<lparr>owner_id = i, owner_truthy = True, owner_weakrefable = True\<rparr>"

definition example_actions :: "action list" where
  "example_actions =
     [Channel ''started'' None (11, 12),
      Channel ''started'' (Some (example_owner 10)) (13, 14),
      Channel ''started'' (Some (example_owner 20)) (15, 16),
      Connect 11 (plain_function 31 (VStr ''U'')) False 0,
      Connect 13 (plain_function 32 (VStr ''B1'')) False 0,
      Connect 15 (plain_function 33 (VStr ''B2'')) False 0]"

definition example_world :: world where
  "example_world = (case run world_init example_actions of None \<Rightarrow> world_init | Some w \<Rightarrow> w)"

text \<open>
  The example world after two more receivers are connected to the unbound Channel: one
  that raises, and one after it.
\<close>

definition raising_world :: world where
  "raising_world =
     (case run example_world
             [Connect 11 (raising_function 40 ''boom'') False 0,
              Connect 11 (plain_function 41 VNone) False 0] of
        None \<Rightarrow> example_world
      | Some w \<Rightarrow> w)"

text \<open>
  A callable that \<open>WeakSet.add\<close> can hold weakly: a method has a name and an instance
  that supports weak references; any other callable supports weak references itself.
\<close>

definition connectable :: "pyobj \<Rightarrow> bool" where
  "connectable obj \<longleftrightarrow>
     (if is_method obj
      then name_attr obj \<noteq> None \<and>
           (case self_attr obj of None \<Rightarrow> False | Some (inst, inst_weakrefable) \<Rightarrow> inst_weakrefable)
      else weakrefable obj)"

text \<open>
  What the weak reference that \<open>WeakSet.add\<close> makes for \<open>obj\<close> gives when it is called:
  for a method, the attribute of the instance that has the method's name, while the
  instance is alive; for any other callable, the object itself while it is alive.
\<close>

definition weak_call :: "env \<Rightarrow> pyobj \<Rightarrow> error + pyobj option" where
  "weak_call e obj =
     (if is_method obj then
        (case (self_attr obj, name_attr obj) of
           (Some (inst, inst_weakrefable), Some (name, nid)) \<Rightarrow>
             if alive e inst then getattr e inst name else Inr None
         | _ \<Rightarrow> Inr None)
      else Inr (if alive e (obj_id obj) then Some obj else None))"

text \<open>
  A callable whose identity in a WeakSet is the same at every call of \<open>_ref_id\<close>: every
  callable but a method without \<open>__func__\<close> whose name string is made anew at each
  access.
\<close>

definition stable :: "pyobj \<Rightarrow> bool" where
  "stable obj \<longleftrightarrow>
     (if is_method obj \<and> func_attr obj = None
      then (case name_attr obj of Some (name, None) \<Rightarrow> False | _ \<Rightarrow> True)
      else True)"

text \<open>The group of the Channel that is registered under a key.\<close>

definition registered_group :: "world \<Rightarrow> key \<Rightarrow> group \<Rightarrow> bool" where
  "registered_group w k g \<longleftrightarrow>
     (\<exists>r chan. channels (band w) k = Some r \<and> heap w (ref_target r) = Some chan \<and>
        g = (receivers_id chan, receivers chan))"

text \<open>
  The scenario of the bound and unbound Channels: on a new Band the unbound Channel of an
  identifier and the Channels of two owners are created in this order, then one receiver
  is connected to each.
\<close>

definition visibility_actions ::
  "string \<Rightarrow> owner \<Rightarrow> owner \<Rightarrow> pyobj \<times> nat \<Rightarrow> pyobj \<times> nat \<Rightarrow> pyobj \<times> nat
     \<Rightarrow> nat \<times> nat \<Rightarrow> nat \<times> nat \<Rightarrow> nat \<times> nat \<Rightarrow> action list" where
  "visibility_actions ident o1 o2 fu f1 f2 allocU alloc1 alloc2 =
     [Channel ident None allocU,
      Channel ident (Some o1) alloc1,
      Channel ident (Some o2) alloc2,
      Connect (fst allocU) (fst fu) False (snd fu),
      Connect (fst alloc1) (fst f1) False (snd f1),
      Connect (fst alloc2) (fst f2) False (snd f2)]"

text \<open>
  A Channel after a connect that raised: on a new Band the unbound Channel \<open>started\<close> is
  created; a strong connect of a callable without \<open>__name__\<close> raises; then two functions
  are connected.
\<close>

definition misaligned_actions :: "action list" where
  "misaligned_actions =
     [Channel ''started'' None (11, 12),
      Connect 11 (partial_object 7) True 0,
      Connect 11 (plain_function 32 (VStr ''G'')) False 0,
      Connect 11 (plain_function 33 (VStr ''H'')) False 0]"

definition misaligned_world :: world where
  "misaligned_world =
     (case run world_init misaligned_actions of None \<Rightarrow> world_init | Some w \<Rightarrow> w)"

text \<open>The Channel at an address of a world; a new unbound Channel when there is none.\<close>

definition channel_at :: "world \<Rightarrow> nat \<Rightarrow> channel" where
  "channel_at w a =
     (case heap w a of
        None \<Rightarrow> \<lparr>identifier = [], parent = None, receivers_id = 0, receivers = WeakSet_empty\<rparr>
      | Some chan \<Rightarrow> chan)"

section \<open>Unfolding rules for evaluation\<close>

lemmas weakset_defs =
  add_def discard_def remove_id_def remove_ref_def WeakSet_empty_def ref_id_def is_method_def
  StrongRef_init_def WeakRef_init_def WeakMeth_init_def pop_def iter_def Let_def

lemmas band_defs =
  Band_send_def Band_channel_def world_init_def Band_init_def Channel_init_def
  deref_def get_channel_receivers_def bound_def Band_dispatch_def Dispatcher__dispatch_def
  Context_init_def DEFAULT_DISPATCHER_def run_receivers_def Dispatcher_dispatch_def call_def
  group_obj_def finish_dispatch_def Channel_send_def get_receivers_def connect_def disconnect_def
  collides_def

lemmas example_defs =
  plain_function_def partial_object_def builtin_method_def builtin_function_def
  raising_function_def all_alive_def builtins_env_def all_but_def

section \<open>The weak set\<close>

lemma filter_neq_id: "x \<notin> set xs \<Longrightarrow> filter (\<lambda>y. y \<noteq> x) xs = xs"
  by (induction xs) auto

lemma remove1_filter_distinct: "distinct xs \<Longrightarrow> remove1 x xs = filter (\<lambda>y. y \<noteq> x) xs"
  by (induction xs) (auto simp: filter_neq_id)

subsection \<open>An add that raises\<close>

text \<open>
  Claim C10 says that \<open>WeakSet.add\<close> leaves the set unchanged when it raises, so that
  the identity list and the reference list keep equal length and stay aligned. The code
  appends the identity before it builds the reference. Evaluated on the empty set:
  a strong add of a callable without \<open>__name__\<close> raises \<open>AttributeError\<close> and a weak
  add of a bound method whose instance cannot be weakly referenced raises \<open>TypeError\<close>,
  and both leave one identity and no reference. Afterwards the object cannot be connected
  (its identity is found), discarding it raises \<open>IndexError\<close>, and a receiver added
  later sits at a different index in the two lists, so that discarding it raises
  \<open>IndexError\<close> and leaves its reference in the set.
\<close>

theorem add_leaves_identity_behind:
  "add WeakSet_empty (partial_object 7) True 0 =
     (\<lparr>refs = [], ids = [IdOne 7]\<rparr>, Some AttributeError)
   \<and> add WeakSet_empty (builtin_method 8 9) False 1008 =
     (\<lparr>refs = [], ids = [IdPair 9 1008]\<rparr>, Some TypeError)
   \<and> add \<lparr>refs = [], ids = [IdOne 7]\<rparr> (partial_object 7) False 0 =
     (\<lparr>refs = [], ids = [IdOne 7]\<rparr>, None)
   \<and> discard \<lparr>refs = [], ids = [IdOne 7]\<rparr> (partial_object 7) 0 =
     (\<lparr>refs = [], ids = []\<rparr>, Some IndexError)
   \<and> add \<lparr>refs = [], ids = [IdOne 7]\<rparr> (plain_function 3 VNone) False 0 =
     (\<lparr>refs = [WeakRef (plain_function 3 VNone) (IdOne 3)], ids = [IdOne 7, IdOne 3]\<rparr>, None)
   \<and> discard \<lparr>refs = [WeakRef (plain_function 3 VNone) (IdOne 3)], ids = [IdOne 7, IdOne 3]\<rparr>
         (plain_function 3 VNone) 0 =
     (\<lparr>refs = [WeakRef (plain_function 3 VNone) (IdOne 3)], ids = [IdOne 7]\<rparr>, Some IndexError)"
  by (simp add: weakset_defs example_defs)

subsection \<open>Adding twice\<close>

text \<open>
  Claim C5 says that \<open>WeakSet.add\<close>, and with it \<open>Channel.connect\<close>, is idempotent on the
  identity of the receiver: a callable that is in the set is not added again, also when
  it was added weakly and is added again with \<open>strong\<close>. \<open>add\<close> returns early when the
  identity that \<open>_ref_id\<close> computes is in the identity list, and for a function that
  identity is \<open>id(obj)\<close>: the strong add of a function that was added weakly changes
  nothing. For a method without \<open>__func__\<close> the identity is the pair of
  \<open>id(obj.__self__)\<close> and \<open>id(obj.__name__)\<close>, and the name of a built-in callable is a
  string made at each access. Evaluated for the built-in function \<open>len\<close>, whose name
  string is at address 500 in the first add and at 501 in the second: the weak add
  stores one entry, the strong add after it appends a second one, and iteration yields
  the function twice.
\<close>

theorem builtin_is_added_twice:
  "add \<lparr>refs = [WeakRef (plain_function 31 VNone) (IdOne 31)], ids = [IdOne 31]\<rparr>
       (plain_function 31 VNone) True 501 =
     (\<lparr>refs = [WeakRef (plain_function 31 VNone) (IdOne 31)], ids = [IdOne 31]\<rparr>, None)
   \<and> add WeakSet_empty (builtin_function 5 2 (VInt 0)) False 500 =
     (\<lparr>refs = [WeakMeth ''len'' 2 (IdPair 2 500)], ids = [IdPair 2 500]\<rparr>, None)
   \<and> add \<lparr>refs = [WeakMeth ''len'' 2 (IdPair 2 500)], ids = [IdPair 2 500]\<rparr>
         (builtin_function 5 2 (VInt 0)) True 501 =
     (\<lparr>refs = [WeakMeth ''len'' 2 (IdPair 2 500),
                StrongRef ''len'' (builtin_function 5 2 (VInt 0)) (IdPair 2 501)],
       ids = [IdPair 2 500, IdPair 2 501]\<rparr>, None)
   \<and> iter (builtins_env 5 (VInt 0))
        \<lparr>refs = [WeakMeth ''len'' 2 (IdPair 2 500),
                 StrongRef ''len'' (builtin_function 5 2 (VInt 0)) (IdPair 2 501)],
         ids = [IdPair 2 500, IdPair 2 501]\<rparr> =
     ([builtin_function 5 2 (VInt 0), builtin_function 5 2 (VInt 0)], None)"
  by (simp add: weakset_defs example_defs)

subsection \<open>Connecting and disconnecting\<close>

lemma misaligned_world_run:
  "run world_init misaligned_actions = Some misaligned_world"
  by (simp add: misaligned_world_def misaligned_actions_def band_defs weakset_defs example_defs)

lemma misaligned_world_heap:
  "heap misaligned_world =
     [11 \<mapsto> \<lparr>identifier = ''started'', parent = None, receivers_id = 12,
             receivers = \<lparr>refs = [WeakRef (plain_function 32 (VStr ''G'')) (IdOne 32),
                                  WeakRef (plain_function 33 (VStr ''H'')) (IdOne 33)],
                          ids = [IdOne 7, IdOne 32, IdOne 33]\<rparr>\<rparr>]"
  by (simp add: misaligned_world_def misaligned_actions_def band_defs weakset_defs example_defs)

lemma misaligned_world_band:
  "band misaligned_world =
     \<lparr>dispatcher = DEFAULT_DISPATCHER,
      channels = [(''started'', NoneId) \<mapsto> \<lparr>ref_target = 11, ref_key = (''started'', NoneId)\<rparr>],
      by_parent = (\<lambda>_. Map.empty)(NoneId := [''started'' \<mapsto> (''started'', NoneId)]),
      by_identifier = (\<lambda>_. [])(''started'' := [(''started'', NoneId)])\<rparr>"
  by (simp add: misaligned_world_def misaligned_actions_def band_defs weakset_defs example_defs)

text \<open>
  Claim C6 says that connecting a connected receiver and disconnecting a receiver that
  is not present are silent and change nothing, and that disconnecting a present
  receiver removes exactly its entry. Evaluated on the Channel of \<open>misaligned_world\<close>,
  where a connect that raised left its identity behind and the functions \<open>G\<close> and \<open>H\<close>
  were connected after it: disconnecting \<open>G\<close> returns silently, removes the identity of
  \<open>G\<close> and the reference of \<open>H\<close>, and a send then calls \<open>G\<close> and not \<open>H\<close>;
  disconnecting \<open>H\<close> raises \<open>IndexError\<close> and leaves its reference; disconnecting the
  callable whose connect raised, which is not connected, removes the reference of \<open>G\<close>.
  And for the built-in function \<open>len\<close>, whose name string is at another address at each
  call: connected to a new Channel, a disconnect leaves it connected and a second
  connect appends a second entry.
\<close>

theorem disconnect_removes_another_receiver:
  "channel_at misaligned_world 11 =
     \<lparr>identifier = ''started'', parent = None, receivers_id = 12,
      receivers = \<lparr>refs = [WeakRef (plain_function 32 (VStr ''G'')) (IdOne 32),
                           WeakRef (plain_function 33 (VStr ''H'')) (IdOne 33)],
                   ids = [IdOne 7, IdOne 32, IdOne 33]\<rparr>\<rparr>
   \<and> disconnect (channel_at misaligned_world 11) (plain_function 32 (VStr ''G'')) 0 =
     (\<lparr>identifier = ''started'', parent = None, receivers_id = 12,
       receivers = \<lparr>refs = [WeakRef (plain_function 32 (VStr ''G'')) (IdOne 32)],
                    ids = [IdOne 7, IdOne 33]\<rparr>\<rparr>, None)
   \<and> map_option (\<lambda>w. Channel_send w all_alive 11 (channel_at w 11) [] [] (\<lambda>i. 0))
        (step misaligned_world (Disconnect 11 (plain_function 32 (VStr ''G'')) 0)) =
     Some ([Called (plain_function 32 (VStr ''G'')) [] []], Inr [VStr ''G''])
   \<and> disconnect (channel_at misaligned_world 11) (plain_function 33 (VStr ''H'')) 0 =
     (\<lparr>identifier = ''started'', parent = None, receivers_id = 12,
       receivers = \<lparr>refs = [WeakRef (plain_function 32 (VStr ''G'')) (IdOne 32),
                            WeakRef (plain_function 33 (VStr ''H'')) (IdOne 33)],
                    ids = [IdOne 7, IdOne 32]\<rparr>\<rparr>, Some IndexError)
   \<and> disconnect (channel_at misaligned_world 11) (partial_object 7) 0 =
     (\<lparr>identifier = ''started'', parent = None, receivers_id = 12,
       receivers = \<lparr>refs = [WeakRef (plain_function 33 (VStr ''H'')) (IdOne 33)],
                    ids = [IdOne 32, IdOne 33]\<rparr>\<rparr>, None)
   \<and> connect (channel_at world_init 11) (builtin_function 5 2 (VInt 0)) False 500 =
     (\<lparr>identifier = [], parent = None, receivers_id = 0,
       receivers = \<lparr>refs = [WeakMeth ''len'' 2 (IdPair 2 500)], ids = [IdPair 2 500]\<rparr>\<rparr>, None)
   \<and> disconnect \<lparr>identifier = [], parent = None, receivers_id = 0,
         receivers = \<lparr>refs = [WeakMeth ''len'' 2 (IdPair 2 500)], ids = [IdPair 2 500]\<rparr>\<rparr>
       (builtin_function 5 2 (VInt 0)) 501 =
     (\<lparr>identifier = [], parent = None, receivers_id = 0,
       receivers = \<lparr>refs = [WeakMeth ''len'' 2 (IdPair 2 500)], ids = [IdPair 2 500]\<rparr>\<rparr>, None)
   \<and> connect \<lparr>identifier = [], parent = None, receivers_id = 0,
         receivers = \<lparr>refs = [WeakMeth ''len'' 2 (IdPair 2 500)], ids = [IdPair 2 500]\<rparr>\<rparr>
       (builtin_function 5 2 (VInt 0)) False 501 =
     (\<lparr>identifier = [], parent = None, receivers_id = 0,
       receivers = \<lparr>refs = [WeakMeth ''len'' 2 (IdPair 2 500), WeakMeth ''len'' 2 (IdPair 2 501)],
                    ids = [IdPair 2 500, IdPair 2 501]\<rparr>\<rparr>, None)"
proof -
  let ?g = "plain_function 32 (VStr ''G'')"
  let ?h = "plain_function 33 (VStr ''H'')"
  let ?c = "\<lparr>identifier = ''started'', parent = None, receivers_id = 12,
      receivers = \<lparr>refs = [WeakRef ?g (IdOne 32), WeakRef ?h (IdOne 33)],
                   ids = [IdOne 7, IdOne 32, IdOne 33]\<rparr>\<rparr>"
  let ?c' = "\<lparr>identifier = ''started'', parent = None, receivers_id = 12,
      receivers = \<lparr>refs = [WeakRef ?g (IdOne 32)], ids = [IdOne 7, IdOne 33]\<rparr>\<rparr>"
  let ?w' = "misaligned_world\<lparr>heap := (heap misaligned_world)(11 \<mapsto> ?c')\<rparr>"
  have c: "channel_at misaligned_world 11 = ?c"
    by (simp add: channel_at_def misaligned_world_heap)
  have d: "disconnect ?c ?g 0 = (?c', None)"
    by (simp add: disconnect_def weakset_defs example_defs)
  have s: "step misaligned_world (Disconnect 11 ?g 0) = Some ?w'"
    by (simp add: misaligned_world_heap d)
  have c': "channel_at ?w' 11 = ?c'"
    by (simp add: channel_at_def)
  have g: "get_channel_receivers ?w' 11 ?c' =
      ([(12, \<lparr>refs = [WeakRef ?g (IdOne 32)], ids = [IdOne 7, IdOne 33]\<rparr>)], None)"
    by (simp add: get_channel_receivers_def bound_def misaligned_world_band deref_def)
  have r: "get_receivers ?w' all_alive 11 ?c' = ([?g], None)"
    by (simp add: get_receivers_def g iter_def all_alive_def)
  have "Channel_send ?w' all_alive 11 ?c' [] [] (\<lambda>i. 0) = ([Called ?g [] []], Inr [VStr ''G''])"
    unfolding Channel_send_def r
    by (simp add: misaligned_world_band band_defs weakset_defs example_defs)
  with s c' have 3: "map_option (\<lambda>w. Channel_send w all_alive 11 (channel_at w 11) [] [] (\<lambda>i. 0))
        (step misaligned_world (Disconnect 11 ?g 0)) =
     Some ([Called ?g [] []], Inr [VStr ''G''])"
    by simp
  have 4: "disconnect ?c ?h 0 =
     (\<lparr>identifier = ''started'', parent = None, receivers_id = 12,
       receivers = \<lparr>refs = [WeakRef ?g (IdOne 32), WeakRef ?h (IdOne 33)],
                    ids = [IdOne 7, IdOne 32]\<rparr>\<rparr>, Some IndexError)"
    by (simp add: disconnect_def weakset_defs example_defs)
  have 5: "disconnect ?c (partial_object 7) 0 =
     (\<lparr>identifier = ''started'', parent = None, receivers_id = 12,
       receivers = \<lparr>refs = [WeakRef ?h (IdOne 33)], ids = [IdOne 32, IdOne 33]\<rparr>\<rparr>, None)"
    by (simp add: disconnect_def weakset_defs example_defs)
  have 6: "connect (channel_at world_init 11) (builtin_function 5 2 (VInt 0)) False 500 =
     (\<lparr>identifier = [], parent = None, receivers_id = 0,
       receivers = \<lparr>refs = [WeakMeth ''len'' 2 (IdPair 2 500)], ids = [IdPair 2 500]\<rparr>\<rparr>, None)"
    by (simp add: channel_at_def world_init_def connect_def weakset_defs example_defs)
  have 7: "disconnect \<lparr>identifier = [], parent = None, receivers_id = 0,
         receivers = \<lparr>refs = [WeakMeth ''len'' 2 (IdPair 2 500)], ids = [IdPair 2 500]\<rparr>\<rparr>
       (builtin_function 5 2 (VInt 0)) 501 =
     (\<lparr>identifier = [], parent = None, receivers_id = 0,
       receivers = \<lparr>refs = [WeakMeth ''len'' 2 (IdPair 2 500)], ids = [IdPair 2 500]\<rparr>\<rparr>, None)"
    by (simp add: disconnect_def weakset_defs example_defs)
  have 8: "connect \<lparr>identifier = [], parent = None, receivers_id = 0,
         receivers = \<lparr>refs = [WeakMeth ''len'' 2 (IdPair 2 500)], ids = [IdPair 2 500]\<rparr>\<rparr>
       (builtin_function 5 2 (VInt 0)) False 501 =
     (\<lparr>identifier = [], parent = None, receivers_id = 0,
       receivers = \<lparr>refs = [WeakMeth ''len'' 2 (IdPair 2 500), WeakMeth ''len'' 2 (IdPair 2 501)],
                    ids = [IdPair 2 500, IdPair 2 501]\<rparr>\<rparr>, None)"
    by (simp add: connect_def weakset_defs example_defs)
  from c d 3 4 5 6 7 8 show ?thesis by (simp only: simp_thms)
qed
section \<open>The example world\<close>

lemmas world_defs = band_defs weakset_defs example_defs collect_def remove_channel_def

lemma example_world_run: "run world_init example_actions = Some example_world"
  by (simp add: example_world_def example_actions_def world_defs example_owner_def)

lemma example_world_reachable: "reachable example_world"
  unfolding reachable_def world_init_def[symmetric]
  using example_world_run world_init_def by metis

lemma example_world_channels:
  "channels (band example_world) (''started'', NoneId) = Some \<lparr>ref_target = 11, ref_key = (''started'', NoneId)\<rparr>"
  "channels (band example_world) (''started'', ObjId 10) = Some \<lparr>ref_target = 13, ref_key = (''started'', ObjId 10)\<rparr>"
  "channels (band example_world) (''stopped'', NoneId) = None"
  by (simp_all add: example_world_def example_actions_def world_defs example_owner_def)

lemma example_world_heap:
  "heap example_world 11 = Some \<lparr>identifier = ''started'', parent = None, receivers_id = 12,
      receivers = \<lparr>refs = [WeakRef (plain_function 31 (VStr ''U'')) (IdOne 31)], ids = [IdOne 31]\<rparr>\<rparr>"
  "heap example_world 7 = None"
  by (simp_all add: example_world_def example_actions_def world_defs example_owner_def)

lemma example_owner_acceptable: "acceptable_owner (Some (example_owner i))"
  by (simp add: acceptable_owner_def example_owner_def)

lemma example_world_band:
  "band example_world =
     \<lparr>dispatcher = DEFAULT_DISPATCHER,
      channels = [(''started'', NoneId) \<mapsto> \<lparr>ref_target = 11, ref_key = (''started'', NoneId)\<rparr>,
                  (''started'', ObjId 10) \<mapsto> \<lparr>ref_target = 13, ref_key = (''started'', ObjId 10)\<rparr>,
                  (''started'', ObjId 20) \<mapsto> \<lparr>ref_target = 15, ref_key = (''started'', ObjId 20)\<rparr>],
      by_parent = ((\<lambda>p. Map.empty)
                    (NoneId := [''started'' \<mapsto> (''started'', NoneId)],
                     ObjId 10 := [''started'' \<mapsto> (''started'', ObjId 10)],
                     ObjId 20 := [''started'' \<mapsto> (''started'', ObjId 20)])),
      by_identifier = ((\<lambda>i. [])
                    (''started'' := [(''started'', NoneId), (''started'', ObjId 10), (''started'', ObjId 20)]))\<rparr>"
  by (simp add: example_world_def example_actions_def world_defs example_owner_def)


lemma example_world_heap_all:
  "heap example_world =
     [11 \<mapsto> \<lparr>identifier = ''started'', parent = None, receivers_id = 12,
             receivers = \<lparr>refs = [WeakRef (plain_function 31 (VStr ''U'')) (IdOne 31)],
                          ids = [IdOne 31]\<rparr>\<rparr>,
      13 \<mapsto> \<lparr>identifier = ''started'', parent = Some (example_owner 10), receivers_id = 14,
             receivers = \<lparr>refs = [WeakRef (plain_function 32 (VStr ''B1'')) (IdOne 32)],
                          ids = [IdOne 32]\<rparr>\<rparr>,
      15 \<mapsto> \<lparr>identifier = ''started'', parent = Some (example_owner 20), receivers_id = 16,
             receivers = \<lparr>refs = [WeakRef (plain_function 33 (VStr ''B2'')) (IdOne 33)],
                          ids = [IdOne 33]\<rparr>\<rparr>]"
  by (simp add: example_world_def example_actions_def world_defs example_owner_def)

lemma raising_world_run:
  "run example_world
     [Connect 11 (raising_function 40 ''boom'') False 0,
      Connect 11 (plain_function 41 VNone) False 0] =
   Some raising_world"
  by (simp add: raising_world_def example_world_heap_all connect_def weakset_defs example_defs)

lemma raising_world_heap:
  "heap raising_world 11 =
     Some \<lparr>identifier = ''started'', parent = None, receivers_id = 12,
           receivers =
             \<lparr>refs = [WeakRef (plain_function 31 (VStr ''U'')) (IdOne 31),
                      WeakRef (raising_function 40 ''boom'') (IdOne 40),
                      WeakRef (plain_function 41 VNone) (IdOne 41)],
              ids = [IdOne 31, IdOne 40, IdOne 41]\<rparr>\<rparr>"
  by (simp add: raising_world_def example_world_heap_all connect_def weakset_defs example_defs)


lemma raising_world_band: "band raising_world = band example_world"
  by (simp add: raising_world_def example_world_heap_all connect_def weakset_defs example_defs)

lemma raising_world_heap_others:
  "heap raising_world 13 = heap example_world 13" "heap raising_world 15 = heap example_world 15"
  by (simp_all add: raising_world_def example_world_heap_all connect_def weakset_defs example_defs)

lemma raising_world_groups:
  "get_channel_receivers raising_world 11
      \<lparr>identifier = ''started'', parent = None, receivers_id = 12,
           receivers =
             \<lparr>refs = [WeakRef (plain_function 31 (VStr ''U'')) (IdOne 31),
                      WeakRef (raising_function 40 ''boom'') (IdOne 40),
                      WeakRef (plain_function 41 VNone) (IdOne 41)],
              ids = [IdOne 31, IdOne 40, IdOne 41]\<rparr>\<rparr> =
    ([(12, \<lparr>refs = [WeakRef (plain_function 31 (VStr ''U'')) (IdOne 31),
                      WeakRef (raising_function 40 ''boom'') (IdOne 40),
                      WeakRef (plain_function 41 VNone) (IdOne 41)],
              ids = [IdOne 31, IdOne 40, IdOne 41]\<rparr>),
      (14, \<lparr>refs = [WeakRef (plain_function 32 (VStr ''B1'')) (IdOne 32)], ids = [IdOne 32]\<rparr>),
      (16, \<lparr>refs = [WeakRef (plain_function 33 (VStr ''B2'')) (IdOne 33)], ids = [IdOne 33]\<rparr>)], None)"
  by (simp add: get_channel_receivers_def bound_def raising_world_band example_world_band
        deref_def raising_world_heap raising_world_heap_others example_world_heap_all)


lemma example_world_dispatcher: "dispatcher (band example_world) = DEFAULT_DISPATCHER"
  by (simp add: example_world_band)

lemma raising_world_send:
  "Channel_send raising_world all_alive 11
      \<lparr>identifier = ''started'', parent = None, receivers_id = 12,
           receivers =
             \<lparr>refs = [WeakRef (plain_function 31 (VStr ''U'')) (IdOne 31),
                      WeakRef (raising_function 40 ''boom'') (IdOne 40),
                      WeakRef (plain_function 41 VNone) (IdOne 41)],
              ids = [IdOne 31, IdOne 40, IdOne 41]\<rparr>\<rparr> [] [] (\<lambda>i. 0) =
     ([Called (plain_function 31 (VStr ''U'')) [] [],
       Called (raising_function 40 ''boom'') [] []], Inl (Raised ''boom''))"
  unfolding Channel_send_def get_receivers_def raising_world_groups
  by (simp add: Band_dispatch_def raising_world_band example_world_dispatcher
        Dispatcher__dispatch_def Context_init_def DEFAULT_DISPATCHER_def run_receivers_def
        Dispatcher_dispatch_def call_def finish_dispatch_def collides_def weakset_defs
        example_defs)

lemma example_world_groups_bound:
  "get_channel_receivers example_world 13
      \<lparr>identifier = ''started'', parent = Some (example_owner 10), receivers_id = 14,
        receivers = \<lparr>refs = [WeakRef (plain_function 32 (VStr ''B1'')) (IdOne 32)],
                     ids = [IdOne 32]\<rparr>\<rparr> =
    ([(14, \<lparr>refs = [WeakRef (plain_function 32 (VStr ''B1'')) (IdOne 32)], ids = [IdOne 32]\<rparr>),
      (12, \<lparr>refs = [WeakRef (plain_function 31 (VStr ''U'')) (IdOne 31)], ids = [IdOne 31]\<rparr>)], None)"
  by (simp add: get_channel_receivers_def bound_def example_world_band deref_def
        example_world_heap_all)

lemma example_world_groups_unbound:
  "get_channel_receivers example_world 11
      \<lparr>identifier = ''started'', parent = None, receivers_id = 12,
        receivers = \<lparr>refs = [WeakRef (plain_function 31 (VStr ''U'')) (IdOne 31)],
                     ids = [IdOne 31]\<rparr>\<rparr> =
    ([(12, \<lparr>refs = [WeakRef (plain_function 31 (VStr ''U'')) (IdOne 31)], ids = [IdOne 31]\<rparr>),
      (14, \<lparr>refs = [WeakRef (plain_function 32 (VStr ''B1'')) (IdOne 32)], ids = [IdOne 32]\<rparr>),
      (16, \<lparr>refs = [WeakRef (plain_function 33 (VStr ''B2'')) (IdOne 33)], ids = [IdOne 33]\<rparr>)], None)"
  by (simp add: get_channel_receivers_def bound_def example_world_band deref_def
        example_world_heap_all)

lemmas dispatch_defs =
  Band_dispatch_def Dispatcher__dispatch_def Context_init_def DEFAULT_DISPATCHER_def
  run_receivers_def Dispatcher_dispatch_def call_def finish_dispatch_def collides_def

lemma example_world_send_bound:
  "Channel_send example_world all_alive 13
      \<lparr>identifier = ''started'', parent = Some (example_owner 10), receivers_id = 14,
        receivers = \<lparr>refs = [WeakRef (plain_function 32 (VStr ''B1'')) (IdOne 32)],
                     ids = [IdOne 32]\<rparr>\<rparr> [] [] (\<lambda>i. 0) =
     ([Called (plain_function 32 (VStr ''B1'')) [] [], Called (plain_function 31 (VStr ''U'')) [] []],
      Inr [VStr ''B1'', VStr ''U''])"
  unfolding Channel_send_def get_receivers_def example_world_groups_bound
  by (simp add: example_world_dispatcher dispatch_defs weakset_defs example_defs)

lemma example_world_send_unbound:
  "Channel_send example_world all_alive 11
      \<lparr>identifier = ''started'', parent = None, receivers_id = 12,
        receivers = \<lparr>refs = [WeakRef (plain_function 31 (VStr ''U'')) (IdOne 31)],
                     ids = [IdOne 31]\<rparr>\<rparr> [] [] (\<lambda>i. 0) =
     ([Called (plain_function 31 (VStr ''U'')) [] [], Called (plain_function 32 (VStr ''B1'')) [] [],
       Called (plain_function 33 (VStr ''B2'')) [] []],
      Inr [VStr ''U'', VStr ''B1'', VStr ''B2''])"
  unfolding Channel_send_def get_receivers_def example_world_groups_unbound
  by (simp add: example_world_dispatcher dispatch_defs weakset_defs example_defs)
section \<open>The dispatcher\<close>

subsection \<open>What the hooks see\<close>

text \<open>
  Claim C4 says that the Context handed to \<open>before_dispatch\<close> and \<open>after_dispatch\<close>
  carries the positional arguments of the call in \<open>args\<close> and its keyword arguments in
  \<open>kwargs\<close>. Evaluated for one receiver, the positional argument \<open>1\<close> and the keyword
  argument \<open>k = 2\<close>: both hooks run, before and after the receiver, the receiver gets the
  original arguments and its result is in the results of the second context; but \<open>args\<close>
  is the pair of the argument tuple and the keyword dictionary, and \<open>kwargs\<close> is empty.
\<close>

theorem context_args_hold_both:
  "Dispatcher__dispatch observing_dispatcher all_alive ''x''
       ([plain_function 1 (VInt 5)], None) [VInt 1] [(''k'', VInt 2)] (\<lambda>i. 0) =
     ([Before \<lparr>ctx_identifier = ''x'',
                ctx_receivers = \<lparr>refs = [WeakRef (plain_function 1 (VInt 5)) (IdOne 1)],
                                 ids = [IdOne 1]\<rparr>,
                ctx_args = [VTuple [VInt 1], VDict [(''k'', VInt 2)]],
                ctx_kwargs = [],
                ctx_results = []\<rparr>,
       Called (plain_function 1 (VInt 5)) [VInt 1] [(''k'', VInt 2)],
       After \<lparr>ctx_identifier = ''x'',
               ctx_receivers = \<lparr>refs = [WeakRef (plain_function 1 (VInt 5)) (IdOne 1)],
                                ids = [IdOne 1]\<rparr>,
               ctx_args = [VTuple [VInt 1], VDict [(''k'', VInt 2)]],
               ctx_kwargs = [],
               ctx_results = [VInt 5]\<rparr>],
      Inr [VInt 5])"
  by (simp add: band_defs weakset_defs example_defs observing_dispatcher_def)

subsection \<open>A receiver that raises\<close>

lemma Dispatcher_dispatch_cases:
  "Dispatcher_dispatch ident r args kwargs = ([], Inl TypeError) \<or>
   Dispatcher_dispatch ident r args kwargs = ([Called r args kwargs], call r args kwargs)"
  by (simp add: Dispatcher_dispatch_def)

lemma call_receivers_ok:
  "\<not> collides [''self'', ''identifier'', ''receiver''] kwargs \<Longrightarrow>
   list_all2 (\<lambda>r v. call r args kwargs = Inr v) rs vs \<Longrightarrow>
     call_receivers ident rs args kwargs ctx =
       (map (\<lambda>r. Called r args kwargs) rs, Inr (ctx\<lparr>ctx_results := ctx_results ctx @ vs\<rparr>))"
proof (induction rs arbitrary: vs ctx)
  case Nil
  then show ?case by simp
next
  case (Cons r rs)
  from Cons.prems(2) obtain v vs' where v: "vs = v # vs'" "call r args kwargs = Inr v"
    "list_all2 (\<lambda>r v. call r args kwargs = Inr v) rs vs'"
    by (auto simp: list_all2_Cons1)
  from Cons.IH[OF Cons.prems(1) v(3)] v(1,2) Cons.prems(1) show ?case
    by (simp add: Dispatcher_dispatch_def)
qed

lemma call_receivers_stops:
  "call_receivers ident rs args kwargs ctx = (tr, out) \<Longrightarrow>
     tr = tr1 @ Called r args' kwargs' # tr2 \<Longrightarrow> call r args' kwargs' = Inl e \<Longrightarrow>
     out = Inl e \<and> tr2 = []"
proof (induction rs arbitrary: ctx tr tr1 out)
  case Nil
  then show ?case by simp
next
  case (Cons r0 rs)
  from Dispatcher_dispatch_cases[of ident r0 args kwargs] show ?case
  proof
    assume "Dispatcher_dispatch ident r0 args kwargs = ([], Inl TypeError)"
    with Cons.prems(1) have "tr = []" by simp
    with Cons.prems(2) show ?thesis by simp
  next
    assume dd: "Dispatcher_dispatch ident r0 args kwargs =
        ([Called r0 args kwargs], call r0 args kwargs)"
    show ?thesis
    proof (cases "call r0 args kwargs")
      case (Inl e0)
      with Cons.prems(1) dd have t: "tr = [Called r0 args kwargs]" and o: "out = Inl e0"
        by auto
      from t Cons.prems(2) have "tr1 = [] \<and> tr2 = [] \<and> r = r0 \<and> args' = args \<and> kwargs' = kwargs"
        by (cases tr1) auto
      then have "tr1 = []" "tr2 = []" "r = r0" "args' = args" "kwargs' = kwargs" by simp_all
      with Inl o Cons.prems(3) show ?thesis by simp
    next
      case (Inr v)
      obtain tr' out' where rest: "call_receivers ident rs args kwargs
          (ctx\<lparr>ctx_results := ctx_results ctx @ [v]\<rparr>) = (tr', out')"
        by (cases "call_receivers ident rs args kwargs (ctx\<lparr>ctx_results := ctx_results ctx @ [v]\<rparr>)")
      with Cons.prems(1) Inr dd have t: "tr = Called r0 args kwargs # tr'" and o: "out = out'"
        by simp_all
      show ?thesis
      proof (cases tr1)
        case Nil
        with t Cons.prems(2) have "r = r0" "args' = args" "kwargs' = kwargs" by auto
        with Inr Cons.prems(3) show ?thesis by simp
      next
        case (Cons x tr1')
        with t Cons.prems(2) have "tr' = tr1' @ Called r args' kwargs' # tr2" by simp
        from Cons.IH[OF rest this Cons.prems(3)] o show ?thesis by simp
      qed
    qed
  qed
qed

lemma finish_dispatch_events:
  "finish_dispatch d ctx = (tr, out) \<Longrightarrow> ev \<in> set tr \<Longrightarrow> ev = After ctx"
  by (auto simp: finish_dispatch_def split: option.splits sum.splits)

lemma run_receivers_stops:
  assumes "run_receivers d env ident args kwargs ctx = (tr, out)"
    and "tr = tr1 @ Called r args' kwargs' # tr2" and "call r args' kwargs' = Inl e"
  shows "out = Inl e \<and> tr2 = []"
proof -
  obtain rs stop where i: "iter env (ctx_receivers ctx) = (rs, stop)"
    by (cases "iter env (ctx_receivers ctx)")
  obtain trc outc where c: "call_receivers ident rs args kwargs ctx = (trc, outc)"
    by (cases "call_receivers ident rs args kwargs ctx")
  show ?thesis
  proof (cases outc)
    case (Inl e')
    with i c assms(1) have "tr = trc" "out = Inl e'" by (simp_all add: run_receivers_def)
    with call_receivers_stops[OF c _ assms(3)] assms(2) Inl show ?thesis by auto
  next
    case (Inr ctx')
    show ?thesis
    proof (cases stop)
      case (Some x)
      with i c Inr assms(1) have "tr = trc" by (simp add: run_receivers_def)
      with call_receivers_stops[OF c _ assms(3)] assms(2) Inr show ?thesis by auto
    next
      case None
      obtain trf outf where f: "finish_dispatch d ctx' = (trf, outf)"
        by (cases "finish_dispatch d ctx'")
      with i c Inr None assms(1) have t: "tr = trc @ trf" by (simp add: run_receivers_def)
      have "Called r args' kwargs' \<in> set tr" using assms(2) by simp
      with t have "Called r args' kwargs' \<in> set trc \<or> Called r args' kwargs' \<in> set trf" by auto
      then have "Called r args' kwargs' \<in> set trc"
        using finish_dispatch_events[OF f] by auto
      then obtain u1 u2 where "trc = u1 @ Called r args' kwargs' # u2"
        by (auto simp: in_set_conv_decomp)
      from call_receivers_stops[OF c this assms(3)] Inr show ?thesis by simp
    qed
  qed
qed

lemma Dispatcher__dispatch_stops:
  assumes "Dispatcher__dispatch d env ident rs args kwargs names = (tr, out)"
    and "tr = tr1 @ Called r args' kwargs' # tr2" and "call r args' kwargs' = Inl e"
  shows "out = Inl e \<and> tr2 = []"
proof (cases "collides [''self'', ''identifier'', ''receivers''] kwargs")
  case True
  with assms(1,2) show ?thesis by (simp add: Dispatcher__dispatch_def)
next
  case nc: False
  show ?thesis
  proof (cases "Context_init ident rs [VTuple args, VDict kwargs] [] names")
    case (Inl e')
    with nc assms(1,2) show ?thesis by (simp add: Dispatcher__dispatch_def)
  next
    case (Inr ctx)
    show ?thesis
    proof (cases "before_dispatch d")
      case None
      with nc Inr assms(1) have "run_receivers d env ident args kwargs ctx = (tr, out)"
        by (simp add: Dispatcher__dispatch_def)
      from run_receivers_stops[OF this assms(2,3)] show ?thesis .
    next
      case (Some hook)
      show ?thesis
      proof (cases "hook ctx")
        case (Inl e')
        with nc Inr Some assms(1,2) show ?thesis
          by (auto simp: Dispatcher__dispatch_def Cons_eq_append_conv)
      next
        case ctx': (Inr ctx')
        obtain trr outr where rr: "run_receivers d env ident args kwargs ctx' = (trr, outr)"
          by (cases "run_receivers d env ident args kwargs ctx'")
        with nc Inr Some ctx' assms(1) have t: "tr = Before ctx # trr" and o: "out = outr"
          by (simp_all add: Dispatcher__dispatch_def)
        from t assms(2) obtain u1 where "trr = u1 @ Called r args' kwargs' # tr2"
          by (cases tr1) auto
        from run_receivers_stops[OF rr this assms(3)] o show ?thesis by simp
      qed
    qed
  qed
qed

lemma Band_dispatch_stops:
  assumes "Band_dispatch w env ident rs args kwargs names = (tr, out)"
    and "tr = tr1 @ Called r args' kwargs' # tr2" and "call r args' kwargs' = Inl e"
  shows "out = Inl e \<and> tr2 = []"
proof (cases "collides [''self'', ''identifier'', ''receivers''] kwargs")
  case True
  with assms(1,2) show ?thesis by (simp add: Band_dispatch_def)
next
  case False
  with assms(1) have "Dispatcher__dispatch (dispatcher (band w)) env ident rs args kwargs names =
      (tr, out)"
    by (simp add: Band_dispatch_def)
  from Dispatcher__dispatch_stops[OF this assms(2,3)] show ?thesis .
qed

lemma Channel_send_stops:
  assumes "Channel_send w env a chan args kwargs names = (tr, out)"
    and "tr = tr1 @ Called r args' kwargs' # tr2" and "call r args' kwargs' = Inl e"
  shows "out = Inl e \<and> tr2 = []"
proof (cases "collides [''self''] kwargs")
  case True
  with assms(1,2) show ?thesis by (simp add: Channel_send_def)
next
  case False
  with assms(1) have "Band_dispatch w env (identifier chan) (get_receivers w env a chan)
      args kwargs names = (tr, out)"
    by (simp add: Channel_send_def)
  from Band_dispatch_stops[OF this assms(2,3)] show ?thesis .
qed

text \<open>
  Claim C7: when a receiver raises during a send, the core does not catch the exception:
  it leaves \<open>send\<close>, the receivers after it are not called and no list of results is
  returned. For \<open>Channel.send\<close> and for \<open>Band.dispatch\<close>, whatever the dispatcher's
  hooks: if the trace of the send has a call of a receiver that raises \<open>e\<close>, then that
  call is the last event of the trace (no receiver and no hook runs after it) and the
  send ends with \<open>e\<close>.
\<close>

theorem receiver_exception_propagates:
  "(Channel_send w env a chan args kwargs names = (tr, out) \<and>
      tr = tr1 @ Called r args' kwargs' # tr2 \<and> call r args' kwargs' = Inl e \<longrightarrow>
        out = Inl e \<and> tr2 = []) \<and>
   (Band_dispatch w env ident rs args kwargs names = (tr, out) \<and>
      tr = tr1 @ Called r args' kwargs' # tr2 \<and> call r args' kwargs' = Inl e \<longrightarrow>
        out = Inl e \<and> tr2 = [])"
proof -
  have 1: "Channel_send w env a chan args kwargs names = (tr, out) \<and>
      tr = tr1 @ Called r args' kwargs' # tr2 \<and> call r args' kwargs' = Inl e \<longrightarrow>
        out = Inl e \<and> tr2 = []"
    using Channel_send_stops[of w env a chan args kwargs names tr out tr1 r args' kwargs' tr2 e]
    by blast
  have 2: "Band_dispatch w env ident rs args kwargs names = (tr, out) \<and>
      tr = tr1 @ Called r args' kwargs' # tr2 \<and> call r args' kwargs' = Inl e \<longrightarrow>
        out = Inl e \<and> tr2 = []"
    using Band_dispatch_stops[of w env ident rs args kwargs names tr out tr1 r args' kwargs' tr2 e]
    by blast
  from 1 2 show ?thesis by (rule conjI)
qed

theorem receiver_exception_propagates_witness:
  "\<exists>chan tr out.
     heap raising_world 11 = Some chan \<and>
     Channel_send raising_world all_alive 11 chan [] [] (\<lambda>i. 0) = (tr, out) \<and>
     tr = [Called (plain_function 31 (VStr ''U'')) [] []] @
          Called (raising_function 40 ''boom'') [] [] # [] \<and>
     call (raising_function 40 ''boom'') [] [] = Inl (Raised ''boom'') \<and>
     out = Inl (Raised ''boom'')"
proof -
  let ?chan = "\<lparr>identifier = ''started'', parent = None, receivers_id = 12,
           receivers =
             \<lparr>refs = [WeakRef (plain_function 31 (VStr ''U'')) (IdOne 31),
                      WeakRef (raising_function 40 ''boom'') (IdOne 40),
                      WeakRef (plain_function 41 VNone) (IdOne 41)],
              ids = [IdOne 31, IdOne 40, IdOne 41]\<rparr>\<rparr>"
  let ?tr = "[Called (plain_function 31 (VStr ''U'')) [] [],
       Called (raising_function 40 ''boom'') [] []]"
  have c: "call (raising_function 40 ''boom'') [] [] = Inl (Raised ''boom'')"
    by (simp add: call_def raising_function_def)
  have s: "Channel_send raising_world all_alive 11 ?chan [] [] (\<lambda>i. 0) =
      (?tr, Inl (Raised ''boom''))"
    by (rule raising_world_send)
  have t: "?tr = [Called (plain_function 31 (VStr ''U'')) [] []] @
          Called (raising_function 40 ''boom'') [] [] # []"
    by simp
  from receiver_exception_propagates[where w = raising_world and env = all_alive and a = 11
      and chan = ?chan and args = "[]" and kwargs = "[]" and names = "\<lambda>i. 0" and tr = ?tr
      and out = "Inl (Raised ''boom'')"
      and ?tr1.0 = "[Called (plain_function 31 (VStr ''U'')) [] []]"
      and r = "raising_function 40 ''boom''" and args' = "[]" and kwargs' = "[]" and ?tr2.0 = "[]"
      and e = "Raised ''boom''"] s t c
  have "(Inl (Raised ''boom'') :: error + pyval list) = Inl (Raised ''boom'')" by blast
  with raising_world_heap s t c show ?thesis by blast
qed
section \<open>Receivers that die\<close>

text \<open>
  Claim C9 says that a weakly connected receiver whose target has died is left out of
  every later send without a disconnect: the callback of the weak reference removes the
  dead entry from the lists of the set, and iteration skips a dead entry in any case.
  Iteration does skip it. The callback reads the identity stored on the reference, and
  removes from both lists the index that identity has in the identity list. Evaluated
  on the Channel of \<open>misaligned_world\<close>, where a connect that raised left its identity
  behind and the functions \<open>G\<close> and \<open>H\<close> were connected after it: a send calls \<open>G\<close> and
  \<open>H\<close>; when \<open>G\<close> dies, the callback removes the identity of \<open>G\<close> and the reference
  of \<open>H\<close>, the dead reference of \<open>G\<close> stays in the set, and a send then calls nothing,
  though \<open>H\<close> is alive and was not disconnected. On a set whose lists are parallel the
  same callback removes the entry of the dead receiver.
\<close>

theorem callback_removes_live_receiver:
  "Channel_send misaligned_world all_alive 11 (channel_at misaligned_world 11) [] [] (\<lambda>i. 0) =
     ([Called (plain_function 32 (VStr ''G'')) [] [], Called (plain_function 33 (VStr ''H'')) [] []],
      Inr [VStr ''G'', VStr ''H''])
   \<and> map_option (\<lambda>w. channel_at w 11) (step misaligned_world (Dies 32)) =
     Some \<lparr>identifier = ''started'', parent = None, receivers_id = 12,
           receivers = \<lparr>refs = [WeakRef (plain_function 32 (VStr ''G'')) (IdOne 32)],
                        ids = [IdOne 7, IdOne 33]\<rparr>\<rparr>
   \<and> map_option (\<lambda>w. Channel_send w (all_but 32) 11 (channel_at w 11) [] [] (\<lambda>i. 0))
        (step misaligned_world (Dies 32)) =
     Some ([], Inr [])
   \<and> clear_target 32
        \<lparr>refs = [WeakRef (plain_function 32 (VStr ''G'')) (IdOne 32),
                 WeakRef (plain_function 33 (VStr ''H'')) (IdOne 33)],
         ids = [IdOne 32, IdOne 33]\<rparr> =
     \<lparr>refs = [WeakRef (plain_function 33 (VStr ''H'')) (IdOne 33)], ids = [IdOne 33]\<rparr>"
proof -
  let ?g = "plain_function 32 (VStr ''G'')"
  let ?h = "plain_function 33 (VStr ''H'')"
  let ?ws = "\<lparr>refs = [WeakRef ?g (IdOne 32), WeakRef ?h (IdOne 33)],
              ids = [IdOne 7, IdOne 32, IdOne 33]\<rparr>"
  let ?ws' = "\<lparr>refs = [WeakRef ?g (IdOne 32)], ids = [IdOne 7, IdOne 33]\<rparr>"
  let ?c = "\<lparr>identifier = ''started'', parent = None, receivers_id = 12, receivers = ?ws\<rparr>"
  let ?c' = "\<lparr>identifier = ''started'', parent = None, receivers_id = 12, receivers = ?ws'\<rparr>"
  let ?w' = "misaligned_world\<lparr>heap := [11 \<mapsto> ?c']\<rparr>"
  have c: "channel_at misaligned_world 11 = ?c"
    by (simp add: channel_at_def misaligned_world_heap)
  have g: "get_channel_receivers misaligned_world 11 ?c = ([(12, ?ws)], None)"
    by (simp add: get_channel_receivers_def bound_def misaligned_world_band deref_def
          misaligned_world_heap)
  have r: "get_receivers misaligned_world all_alive 11 ?c = ([?g, ?h], None)"
    by (simp add: get_receivers_def g iter_def all_alive_def)
  have 1: "Channel_send misaligned_world all_alive 11 (channel_at misaligned_world 11) [] []
        (\<lambda>i. 0) =
      ([Called ?g [] [], Called ?h [] []], Inr [VStr ''G'', VStr ''H''])"
    unfolding c Channel_send_def r
    by (simp add: misaligned_world_band band_defs weakset_defs example_defs)
  have ct: "clear_target 32 ?ws = ?ws'"
    by (simp add: clear_target_def weakset_defs example_defs)
  have "(\<lambda>a. map_option (\<lambda>chan. chan\<lparr>receivers := clear_target 32 (receivers chan)\<rparr>)
        (heap misaligned_world a)) = [11 \<mapsto> ?c']"
    by (rule ext) (simp add: misaligned_world_heap ct)
  then have s: "step misaligned_world (Dies 32) = Some ?w'"
    by simp
  have c': "channel_at ?w' 11 = ?c'"
    by (simp add: channel_at_def)
  have g': "get_channel_receivers ?w' 11 ?c' = ([(12, ?ws')], None)"
    by (simp add: get_channel_receivers_def bound_def misaligned_world_band deref_def)
  have r': "get_receivers ?w' (all_but 32) 11 ?c' = ([], None)"
    unfolding get_receivers_def g' by (simp add: iter_def all_but_def plain_function_def)
  have "Channel_send ?w' (all_but 32) 11 ?c' [] [] (\<lambda>i. 0) = ([], Inr [])"
    unfolding Channel_send_def r'
    by (simp add: misaligned_world_band band_defs weakset_defs)
  with s c' have 3: "map_option (\<lambda>w. Channel_send w (all_but 32) 11 (channel_at w 11) [] [] (\<lambda>i. 0))
        (step misaligned_world (Dies 32)) = Some ([], Inr [])"
    by simp
  from s c' have 2: "map_option (\<lambda>w. channel_at w 11) (step misaligned_world (Dies 32)) = Some ?c'"
    by simp
  have 4: "clear_target 32 \<lparr>refs = [WeakRef ?g (IdOne 32), WeakRef ?h (IdOne 33)],
         ids = [IdOne 32, IdOne 33]\<rparr> =
     \<lparr>refs = [WeakRef ?h (IdOne 33)], ids = [IdOne 33]\<rparr>"
    by (simp add: clear_target_def weakset_defs example_defs)
  from 1 2 3 4 show ?thesis by (simp only: simp_thms)
qed
section \<open>The registry\<close>

lemma consistent_init: "consistent \<lparr>band = Band_init d, heap = Map.empty\<rparr>"
  by (simp add: consistent_def refs_ok_def heap_ok_def by_parent_ok_def by_identifier_ok_def
        Band_init_def)

lemma remove_channel_fields:
  "channels (remove_channel b r) = (channels b)(ref_key r := None)"
  "by_parent (remove_channel b r) =
     (by_parent b)(snd (ref_key r) := (by_parent b (snd (ref_key r)))(fst (ref_key r) := None))"
  "by_identifier (remove_channel b r) =
     (by_identifier b)(fst (ref_key r) := remove1 (ref_key r) (by_identifier b (fst (ref_key r))))"
  "dispatcher (remove_channel b r) = dispatcher b"
  by (auto simp: remove_channel_def Let_def remove1_idem split: prod.splits)

lemma collect_unregistered: "channels (band w) k = None \<Longrightarrow> collect w k = w"
  by (simp add: collect_def)

lemma collect_registered:
  "channels (band w) k = Some r \<Longrightarrow>
     collect w k = w\<lparr>band := remove_channel (band w) r, heap := (heap w)(ref_target r := None)\<rparr>"
  by (simp add: collect_def)

lemma target_inj:
  assumes "refs_ok w" "channels (band w) k = Some r" "channels (band w) k' = Some r'"
    "ref_target r = ref_target r'"
  shows "k = k'"
proof -
  from assms(1,2) obtain chan where c: "heap w (ref_target r) = Some chan"
    "identifier chan = fst k" "id_of (parent chan) = snd k"
    unfolding refs_ok_def by blast
  from assms(1,3) obtain chan' where c': "heap w (ref_target r') = Some chan'"
    "identifier chan' = fst k'" "id_of (parent chan') = snd k'"
    unfolding refs_ok_def by blast
  from c c' assms(4) show ?thesis by (simp add: prod_eq_iff)
qed

lemma refs_ok_key: "refs_ok w \<Longrightarrow> channels (band w) k = Some r \<Longrightarrow> ref_key r = k"
  unfolding refs_ok_def by blast

lemma consistent_collect:
  assumes "consistent w"
  shows "consistent (collect w k)"
proof (cases "channels (band w) k")
  case None
  with assms show ?thesis by (simp add: collect_unregistered)
next
  case (Some r)
  from assms have ro: "refs_ok w" and ho: "heap_ok w" and po: "by_parent_ok (band w)"
    and io: "by_identifier_ok (band w)"
    by (simp_all add: consistent_def)
  have rk: "ref_key r = k" using ro Some by (rule refs_ok_key)
  let ?w = "collect w k"
  have cw: "?w = w\<lparr>band := remove_channel (band w) r, heap := (heap w)(ref_target r := None)\<rparr>"
    using Some by (rule collect_registered)
  have ch: "channels (band ?w) = (channels (band w))(k := None)"
    by (simp add: cw remove_channel_fields rk)
  have hp: "heap ?w = (heap w)(ref_target r := None)"
    by (simp add: cw)
  have 1: "refs_ok ?w"
    unfolding refs_ok_def
  proof (intro allI impI)
    fix k' r'
    assume a: "channels (band ?w) k' = Some r'"
    then have ne: "k' \<noteq> k" and old: "channels (band w) k' = Some r'"
      by (auto simp: ch split: if_splits)
    from target_inj[OF ro Some old] ne have "ref_target r' \<noteq> ref_target r" by auto
    moreover from ro old have "ref_key r' = k' \<and>
        (\<exists>chan. heap w (ref_target r') = Some chan \<and> identifier chan = fst k' \<and>
                id_of (parent chan) = snd k')"
      unfolding refs_ok_def by blast
    ultimately show "ref_key r' = k' \<and>
        (\<exists>chan. heap ?w (ref_target r') = Some chan \<and> identifier chan = fst k' \<and>
                id_of (parent chan) = snd k')"
      by (simp add: hp)
  qed
  have 2: "heap_ok ?w"
    unfolding heap_ok_def
  proof (intro allI impI)
    fix a chan
    assume a: "heap ?w a = Some chan"
    then have ne: "a \<noteq> ref_target r" and old: "heap w a = Some chan"
      by (auto simp: hp split: if_splits)
    from ho old obtain r' where r': "channels (band w) (identifier chan, id_of (parent chan)) = Some r'"
        "ref_target r' = a"
      unfolding heap_ok_def by blast
    with ne Some have "(identifier chan, id_of (parent chan)) \<noteq> k" by auto
    with r' show "\<exists>r. channels (band ?w) (identifier chan, id_of (parent chan)) = Some r \<and> ref_target r = a"
      by (simp add: ch)
  qed
  have bp: "by_parent (band ?w) =
      (by_parent (band w))(snd k := (by_parent (band w) (snd k))(fst k := None))"
    by (simp add: cw remove_channel_fields rk)
  have bi: "by_identifier (band ?w) =
      (by_identifier (band w))(fst k := remove1 k (by_identifier (band w) (fst k)))"
    by (simp add: cw remove_channel_fields rk)
  have 3: "by_parent_ok (band ?w)"
    unfolding by_parent_ok_def ch bp using po[unfolded by_parent_ok_def]
    by (cases k) auto
  have 4: "by_identifier_ok (band ?w)"
    unfolding by_identifier_ok_def ch bi using io[unfolded by_identifier_ok_def]
    by (cases k) auto
  from 1 2 3 4 show ?thesis by (simp add: consistent_def)
qed

lemma Band_channel_old:
  "channels (band w) (ident, id_of p) = Some r \<Longrightarrow>
     Band_channel w ident p alloc = Inr (deref w r, w)"
  by (simp add: Band_channel_def)

lemma Band_channel_new:
  assumes "channels (band w) (ident, id_of p) = None"
    and "Band_channel w ident p alloc = Inr (c, w')"
  shows "\<exists>chan. identifier chan = ident \<and> parent chan = p \<and> receivers chan = WeakSet_empty \<and>
           receivers_id chan = snd alloc \<and>
           c = Some (fst alloc, chan) \<and>
           heap w' = (heap w)(fst alloc \<mapsto> chan) \<and>
           channels (band w') =
             (channels (band w))((ident, id_of p) \<mapsto> \<lparr>ref_target = fst alloc, ref_key = (ident, id_of p)\<rparr>) \<and>
           by_parent (band w') =
             (by_parent (band w))(id_of p := (by_parent (band w) (id_of p))(ident \<mapsto> (ident, id_of p))) \<and>
           by_identifier (band w') =
             (by_identifier (band w))(ident := by_identifier (band w) ident @ [(ident, id_of p)]) \<and>
           dispatcher (band w') = dispatcher (band w)"
  using assms
  by (auto simp: Band_channel_def Let_def Channel_init_def deref_def split: sum.splits option.splits if_splits)

lemma Band_channel_error:
  "Band_channel w ident p alloc = Inl e \<Longrightarrow>
     channels (band w) (ident, id_of p) = None \<and> e = TypeError \<and>
     (\<exists>ow. p = Some ow \<and> owner_truthy ow \<and> \<not> owner_weakrefable ow)"
  by (auto simp: Band_channel_def Let_def Channel_init_def split: sum.splits option.splits if_splits)

lemma consistent_channel:
  assumes "consistent w"
    and fresh: "channels (band w) (ident, id_of p) = None \<longrightarrow> heap w (fst alloc) = None"
    and bc: "Band_channel w ident p alloc = Inr (c, w')"
  shows "consistent w'"
proof (cases "channels (band w) (ident, id_of p)")
  case (Some r)
  with bc assms(1) show ?thesis by (simp add: Band_channel_old)
next
  case None
  let ?k = "(ident, id_of p)"
  from assms(1) have ro: "refs_ok w" and ho: "heap_ok w" and po: "by_parent_ok (band w)"
    and io: "by_identifier_ok (band w)"
    by (simp_all add: consistent_def)
  from fresh None have fr: "heap w (fst alloc) = None" by simp
  from Band_channel_new[OF None bc] obtain chan where
    chan: "identifier chan = ident" "parent chan = p"
    and hp: "heap w' = (heap w)(fst alloc \<mapsto> chan)"
    and ch: "channels (band w') = (channels (band w))(?k \<mapsto> \<lparr>ref_target = fst alloc, ref_key = ?k\<rparr>)"
    and bp: "by_parent (band w') =
             (by_parent (band w))(id_of p := (by_parent (band w) (id_of p))(ident \<mapsto> ?k))"
    and bi: "by_identifier (band w') =
             (by_identifier (band w))(ident := by_identifier (band w) ident @ [?k])"
    by blast
  have 1: "refs_ok w'"
    unfolding refs_ok_def
  proof (intro allI impI)
    fix k' r'
    assume a: "channels (band w') k' = Some r'"
    show "ref_key r' = k' \<and>
        (\<exists>chan. heap w' (ref_target r') = Some chan \<and> identifier chan = fst k' \<and>
                id_of (parent chan) = snd k')"
    proof (cases "k' = ?k")
      case True
      with a have "r' = \<lparr>ref_target = fst alloc, ref_key = ?k\<rparr>" by (simp add: ch)
      with True chan show ?thesis by (simp add: hp)
    next
      case False
      with a have old: "channels (band w) k' = Some r'" by (simp add: ch)
      with ro have x: "ref_key r' = k' \<and>
        (\<exists>chan. heap w (ref_target r') = Some chan \<and> identifier chan = fst k' \<and>
                id_of (parent chan) = snd k')"
        unfolding refs_ok_def by blast
      with fr have "ref_target r' \<noteq> fst alloc" by auto
      with x show ?thesis by (simp add: hp)
    qed
  qed
  have 2: "heap_ok w'"
    unfolding heap_ok_def
  proof (intro allI impI)
    fix a chan'
    assume a: "heap w' a = Some chan'"
    show "\<exists>r. channels (band w') (identifier chan', id_of (parent chan')) = Some r \<and> ref_target r = a"
    proof (cases "a = fst alloc")
      case True
      with a chan show ?thesis by (simp add: hp ch)
    next
      case False
      with a have old: "heap w a = Some chan'" by (simp add: hp)
      with ho obtain r' where r': "channels (band w) (identifier chan', id_of (parent chan')) = Some r'"
        "ref_target r' = a"
        unfolding heap_ok_def by blast
      with None have "(identifier chan', id_of (parent chan')) \<noteq> ?k" by auto
      with r' show ?thesis unfolding ch by (intro exI[of _ r']) (simp only: fun_upd_other simp_thms)
    qed
  qed
  have 3: "by_parent_ok (band w')"
    unfolding by_parent_ok_def ch bp using po[unfolded by_parent_ok_def] by auto
  have 4: "by_identifier_ok (band w')"
    unfolding by_identifier_ok_def ch bi using io[unfolded by_identifier_ok_def] None by auto
  from 1 2 3 4 show ?thesis by (simp add: consistent_def)
qed

lemma consistent_heap_update:
  assumes "consistent w" and "heap w a = Some chan"
    and "identifier chan' = identifier chan" and "parent chan' = parent chan"
  shows "consistent (w\<lparr>heap := (heap w)(a \<mapsto> chan')\<rparr>)"
proof -
  from assms(1) have ro: "refs_ok w" and ho: "heap_ok w" and po: "by_parent_ok (band w)"
    and io: "by_identifier_ok (band w)"
    by (simp_all add: consistent_def)
  have 1: "refs_ok (w\<lparr>heap := (heap w)(a \<mapsto> chan')\<rparr>)"
    using ro assms(2-4) unfolding refs_ok_def by fastforce
  have 2: "heap_ok (w\<lparr>heap := (heap w)(a \<mapsto> chan')\<rparr>)"
    unfolding heap_ok_def
  proof (intro allI impI)
    fix b c
    assume "heap (w\<lparr>heap := (heap w)(a \<mapsto> chan')\<rparr>) b = Some c"
    then have "\<exists>c0. heap w b = Some c0 \<and> identifier c = identifier c0 \<and> parent c = parent c0"
      using assms(2-4) by (auto split: if_splits)
    then obtain c0 where c0: "heap w b = Some c0" "identifier c = identifier c0" "parent c = parent c0"
      by blast
    from ho c0(1) have "\<exists>r. channels (band w) (identifier c0, id_of (parent c0)) = Some r \<and> ref_target r = b"
      unfolding heap_ok_def by blast
    with c0 show "\<exists>r. channels (band (w\<lparr>heap := (heap w)(a \<mapsto> chan')\<rparr>)) (identifier c, id_of (parent c)) = Some r \<and>
        ref_target r = b"
      by simp
  qed
  from 1 2 po io show ?thesis by (simp add: consistent_def)
qed

lemma consistent_heap_map:
  assumes "consistent w" and "\<And>chan. identifier (f chan) = identifier chan"
    and "\<And>chan. parent (f chan) = parent chan"
  shows "consistent (w\<lparr>heap := (\<lambda>a. map_option f (heap w a))\<rparr>)"
proof -
  from assms(1) have ro: "refs_ok w" and ho: "heap_ok w" and po: "by_parent_ok (band w)"
    and io: "by_identifier_ok (band w)"
    by (simp_all add: consistent_def)
  have 1: "refs_ok (w\<lparr>heap := (\<lambda>a. map_option f (heap w a))\<rparr>)"
    using ro assms(2-3) unfolding refs_ok_def by fastforce
  have 2: "heap_ok (w\<lparr>heap := (\<lambda>a. map_option f (heap w a))\<rparr>)"
    using ho assms(2-3) unfolding heap_ok_def by fastforce
  from 1 2 po io show ?thesis by (simp add: consistent_def)
qed

lemma connect_fields:
  "identifier (fst (connect chan obj strong n)) = identifier chan"
  "parent (fst (connect chan obj strong n)) = parent chan"
  "receivers_id (fst (connect chan obj strong n)) = receivers_id chan"
  by (simp_all add: connect_def split: prod.splits)

lemma disconnect_fields:
  "identifier (fst (disconnect chan obj n)) = identifier chan"
  "parent (fst (disconnect chan obj n)) = parent chan"
  "receivers_id (fst (disconnect chan obj n)) = receivers_id chan"
  by (simp_all add: disconnect_def split: prod.splits)

lemma step_consistent:
  assumes "consistent w" and "step w act = Some w'"
  shows "consistent w'"
proof (cases act)
  case (Channel ident p alloc)
  show ?thesis
  proof (cases "Band_channel w ident p alloc")
    case (Inl e)
    with assms Channel show ?thesis by (auto split: if_splits)
  next
    case (Inr cw)
    obtain c w1 where cw: "cw = (c, w1)" by (cases cw)
    from assms(2) Channel Inr cw have w1: "w' = w1"
      and fr: "channels (band w) (ident, id_of p) = None \<longrightarrow> heap w (fst alloc) = None"
      by (auto split: if_splits)
    from Inr cw w1 have "Band_channel w ident p alloc = Inr (c, w')" by simp
    with assms(1) fr show ?thesis by (rule consistent_channel)
  qed
next
  case (Collect k)
  with assms show ?thesis by (auto simp: consistent_collect)
next
  case (Connect a obj strong n)
  with assms show ?thesis
    by (auto split: option.splits simp: consistent_heap_update connect_fields)
next
  case (Disconnect a obj n)
  with assms show ?thesis
    by (auto split: option.splits simp: consistent_heap_update disconnect_fields)
next
  case (Dies dead)
  with assms show ?thesis
    by (auto simp: consistent_heap_map)
qed

lemma run_consistent: "consistent w \<Longrightarrow> run w acts = Some w' \<Longrightarrow> consistent w'"
proof (induction acts arbitrary: w)
  case Nil
  then show ?case by simp
next
  case (Cons act acts)
  then show ?case by (auto split: option.splits dest: step_consistent)
qed

lemma reachable_consistent: "reachable w \<Longrightarrow> consistent w"
  unfolding reachable_def using run_consistent consistent_init by blast

lemma run_append: "run w (xs @ ys) = (case run w xs of None \<Rightarrow> None | Some w' \<Rightarrow> run w' ys)"
  by (induction xs arbitrary: w) (auto split: option.splits)

lemma reachable_run: "reachable w \<Longrightarrow> run w acts = Some w' \<Longrightarrow> reachable w'"
  unfolding reachable_def
  by (metis (no_types, lifting) option.simps(5) run_append)

lemma step_band_unchanged:
  "step w (Connect a obj strong n) = Some w' \<Longrightarrow> band w' = band w"
  "step w (Disconnect a obj n) = Some w' \<Longrightarrow> band w' = band w"
  "step w (Dies dead) = Some w' \<Longrightarrow> band w' = band w"
  by (auto split: option.splits)

lemma step_keeps:
  assumes "consistent w" and "step w act = Some w'" and "act \<noteq> Collect k"
    and "channels (band w) k = Some r"
  shows "channels (band w') k = Some r"
proof (cases act)
  case (Channel ident p alloc)
  show ?thesis
  proof (cases "channels (band w) (ident, id_of p)")
    case (Some r')
    with assms Channel show ?thesis by (auto simp: Band_channel_old)
  next
    case None
    show ?thesis
    proof (cases "Band_channel w ident p alloc")
      case (Inl e)
      with assms Channel show ?thesis by (auto split: if_splits)
    next
      case (Inr cw)
      obtain c w1 where cw: "cw = (c, w1)" by (cases cw)
      from assms(2) Channel Inr cw have w1: "w' = w1" by (auto split: if_splits)
      from Band_channel_new[OF None] Inr cw w1 have
        "channels (band w') =
           (channels (band w))((ident, id_of p) \<mapsto> \<lparr>ref_target = fst alloc, ref_key = (ident, id_of p)\<rparr>)"
        by blast
      moreover from None assms(4) have "k \<noteq> (ident, id_of p)" by auto
      ultimately show ?thesis using assms(4) by simp
    qed
  qed
next
  case (Collect k')
  with assms(3) have ne: "k' \<noteq> k" by simp
  show ?thesis
  proof (cases "channels (band w) k'")
    case None
    with assms Collect show ?thesis by (simp add: collect_unregistered)
  next
    case (Some r')
    from assms(1) have "refs_ok w" by (simp add: consistent_def)
    then have "ref_key r' = k'" using Some by (rule refs_ok_key)
    with assms Collect Some ne show ?thesis
      by (auto simp: collect_registered remove_channel_fields)
  qed
next
  case (Connect a obj strong n)
  with assms step_band_unchanged(1) show ?thesis by metis
next
  case (Disconnect a obj n)
  with assms step_band_unchanged(2) show ?thesis by metis
next
  case (Dies dead)
  with assms step_band_unchanged(3) show ?thesis by metis
qed

lemma run_keeps:
  "consistent w \<Longrightarrow> run w acts = Some w' \<Longrightarrow> Collect k \<notin> set acts \<Longrightarrow>
     channels (band w) k = Some r \<Longrightarrow> channels (band w') k = Some r"
proof (induction acts arbitrary: w)
  case Nil
  then show ?case by simp
next
  case (Cons act acts)
  from Cons.prems(2) obtain w1 where s: "step w act = Some w1" and r: "run w1 acts = Some w'"
    by (auto split: option.splits)
  from Cons.prems(3) have ne: "act \<noteq> Collect k" and rest: "Collect k \<notin> set acts" by auto
  from step_keeps[OF Cons.prems(1) s ne Cons.prems(4)] have "channels (band w1) k = Some r" .
  moreover from Cons.prems(1) s have "consistent w1" by (rule step_consistent)
  ultimately show ?case using Cons.IH r rest by blast
qed

lemma deref_registered:
  assumes "consistent w" and "channels (band w) k = Some r"
  shows "\<exists>chan. deref w r = Some (ref_target r, chan) \<and> heap w (ref_target r) = Some chan \<and>
           identifier chan = fst k \<and> id_of (parent chan) = snd k"
proof -
  from assms(1) have "refs_ok w" by (simp add: consistent_def)
  with assms(2) obtain chan where "heap w (ref_target r) = Some chan" "identifier chan = fst k"
    "id_of (parent chan) = snd k"
    unfolding refs_ok_def by blast
  then show ?thesis by (simp add: deref_def)
qed

lemma Band_channel_returns:
  "acceptable_owner p \<Longrightarrow> \<exists>c w1. Band_channel w ident p alloc = Inr (c, w1)"
  by (cases "Band_channel w ident p alloc")
     (auto dest!: Band_channel_error simp: acceptable_owner_def)

lemma Band_channel_registers:
  assumes "consistent w"
    and "channels (band w) (ident, id_of p) = None \<longrightarrow> heap w (fst alloc) = None"
    and "Band_channel w ident p alloc = Inr (c, w1)"
  shows "\<exists>r chan. channels (band w1) (ident, id_of p) = Some r \<and> c = Some (ref_target r, chan) \<and>
           heap w1 (ref_target r) = Some chan \<and> consistent w1"
proof -
  have c1: "consistent w1" using assms by (rule consistent_channel)
  show ?thesis
  proof (cases "channels (band w) (ident, id_of p)")
    case (Some r)
    with assms(3) have e: "c = deref w r" "w1 = w" by (auto simp: Band_channel_old)
    from deref_registered[OF assms(1) Some] e Some c1 show ?thesis by auto
  next
    case None
    from Band_channel_new[OF None assms(3)] c1 show ?thesis by auto
  qed
qed

subsection \<open>One Channel per identifier and owner\<close>

text \<open>
  Claim C3: for every Band, identifier and owner (\<open>None\<close> included), two successive calls
  of \<open>Band.channel\<close> return the identical Channel object, as long as the first result is
  kept alive between the calls. In a reachable world: the call returns for every owner that
  \<open>Channel.__init__\<close> accepts; whenever it returns, it returns a live Channel at some
  address \<open>a\<close>; the same call right after returns the Channel at \<open>a\<close>, unchanged, and
  leaves the world as it is; and so does the same call after any operations on the world
  among which the Channel of this key is not collected (its receivers may have changed by
  then).
\<close>

theorem channel_returns_same_object:
  assumes "reachable w"
    and "channels (band w) (ident, id_of p) = None \<longrightarrow> heap w (fst alloc) = None"
  shows "(acceptable_owner p \<longrightarrow> (\<exists>c w1. Band_channel w ident p alloc = Inr (c, w1))) \<and>
         (\<forall>c w1. Band_channel w ident p alloc = Inr (c, w1) \<longrightarrow>
            (\<exists>a chan. c = Some (a, chan) \<and> heap w1 a = Some chan \<and>
               Band_channel w1 ident p alloc' = Inr (Some (a, chan), w1) \<and>
               (\<forall>acts w2. run w1 acts = Some w2 \<and> Collect (ident, id_of p) \<notin> set acts \<longrightarrow>
                  (\<exists>chan'. Band_channel w2 ident p alloc' = Inr (Some (a, chan'), w2)))))"
proof (intro conjI allI impI)
  assume "acceptable_owner p"
  then show "\<exists>c w1. Band_channel w ident p alloc = Inr (c, w1)" by (rule Band_channel_returns)
next
  fix c w1
  assume bc: "Band_channel w ident p alloc = Inr (c, w1)"
  from assms(1) have cw: "consistent w" by (rule reachable_consistent)
  from Band_channel_registers[OF cw assms(2) bc] obtain r chan where
    r: "channels (band w1) (ident, id_of p) = Some r" and c: "c = Some (ref_target r, chan)"
    and h: "heap w1 (ref_target r) = Some chan" and c1: "consistent w1"
    by blast
  have again: "Band_channel w1 ident p alloc' = Inr (Some (ref_target r, chan), w1)"
    using r h by (simp add: Band_channel_old deref_def)
  have later: "\<forall>acts w2. run w1 acts = Some w2 \<and> Collect (ident, id_of p) \<notin> set acts \<longrightarrow>
                  (\<exists>chan'. Band_channel w2 ident p alloc' = Inr (Some (ref_target r, chan'), w2))"
  proof (intro allI impI)
    fix acts w2
    assume a: "run w1 acts = Some w2 \<and> Collect (ident, id_of p) \<notin> set acts"
    then have r2: "channels (band w2) (ident, id_of p) = Some r"
      using run_keeps[OF c1 _ _ r] by blast
    from a c1 have c2: "consistent w2" using run_consistent by blast
    from deref_registered[OF c2 r2] obtain chan' where "deref w2 r = Some (ref_target r, chan')"
      by blast
    with r2 show "\<exists>chan'. Band_channel w2 ident p alloc' = Inr (Some (ref_target r, chan'), w2)"
      by (simp add: Band_channel_old)
  qed
  from c h again later show "\<exists>a chan. c = Some (a, chan) \<and> heap w1 a = Some chan \<and>
               Band_channel w1 ident p alloc' = Inr (Some (a, chan), w1) \<and>
               (\<forall>acts w2. run w1 acts = Some w2 \<and> Collect (ident, id_of p) \<notin> set acts \<longrightarrow>
                  (\<exists>chan'. Band_channel w2 ident p alloc' = Inr (Some (a, chan'), w2)))"
    by blast
qed

theorem channel_returns_same_object_witness:
  "reachable example_world \<and> heap example_world 7 = None \<and>
   acceptable_owner (Some (example_owner 10)) \<and>
   (\<exists>a chan w1 w2 chan'.
      Band_channel example_world ''stopped'' (Some (example_owner 10)) (7, 8) =
        Inr (Some (a, chan), w1) \<and>
      Band_channel w1 ''stopped'' (Some (example_owner 10)) (9, 9) = Inr (Some (a, chan), w1) \<and>
      run w1 [Connect a (plain_function 34 VNone) False 0, Collect (''started'', NoneId)] = Some w2 \<and>
      Collect (''stopped'', ObjId 10) \<notin>
        set [Connect a (plain_function 34 VNone) False 0, Collect (''started'', NoneId)] \<and>
      Band_channel w2 ''stopped'' (Some (example_owner 10)) (9, 9) = Inr (Some (a, chan'), w2))"
proof -
  let ?p = "Some (example_owner 10)"
  have fresh: "channels (band example_world) (''stopped'', id_of ?p) = None \<longrightarrow>
      heap example_world (fst (7, 8)) = None"
    by (simp add: example_world_heap)
  note T = channel_returns_same_object[OF example_world_reachable fresh, where alloc' = "(9, 9)"]
  from T example_owner_acceptable obtain c w1 where
    bc: "Band_channel example_world ''stopped'' ?p (7, 8) = Inr (c, w1)"
    by blast
  with T obtain a chan where c: "c = Some (a, chan)" and h: "heap w1 a = Some chan"
    and again: "Band_channel w1 ''stopped'' ?p (9, 9) = Inr (Some (a, chan), w1)"
    and later: "\<forall>acts w2. run w1 acts = Some w2 \<and> Collect (''stopped'', id_of ?p) \<notin> set acts \<longrightarrow>
                  (\<exists>chan'. Band_channel w2 ''stopped'' ?p (9, 9) = Inr (Some (a, chan'), w2))"
    by blast
  let ?acts = "[Connect a (plain_function 34 VNone) False 0, Collect (''started'', NoneId)]"
  from h obtain w2 where r: "run w1 ?acts = Some w2" by simp
  have n: "Collect (''stopped'', id_of ?p) \<notin> set ?acts" by simp
  from later r n obtain chan' where
    "Band_channel w2 ''stopped'' ?p (9, 9) = Inr (Some (a, chan'), w2)" by blast
  with bc c again r n show ?thesis
    using example_world_reachable example_world_heap(2) example_owner_acceptable
    by (auto simp: example_owner_def)
qed

subsection \<open>The three indices\<close>

lemma keys_agree:
  assumes "consistent w"
  shows "keys_by_key (band w) = keys_by_parent (band w)"
    and "keys_by_parent (band w) = keys_by_identifier (band w)"
proof -
  from assms have po: "by_parent_ok (band w)" and io: "by_identifier_ok (band w)"
    by (simp_all add: consistent_def)
  show 1: "keys_by_key (band w) = keys_by_parent (band w)"
    unfolding keys_by_key_def keys_by_parent_def using po[unfolded by_parent_ok_def]
    by (auto split: if_splits)
  have "keys_by_key (band w) = keys_by_identifier (band w)"
    unfolding keys_by_key_def keys_by_identifier_def using io[unfolded by_identifier_ok_def]
    by auto
  with 1 show "keys_by_parent (band w) = keys_by_identifier (band w)" by simp
qed

text \<open>
  Claim C8: in every world reachable by the operations, the index by key, the index by
  owner and the index by identifier refer to the same set of keys; and when a registered
  Channel is collected, the removal deletes its key from all three, every occurrence in
  the list of \<open>by_identifier\<close> included.
\<close>

theorem registry_indices_agree:
  assumes "reachable w"
  shows "keys_by_key (band w) = keys_by_parent (band w) \<and>
         keys_by_parent (band w) = keys_by_identifier (band w) \<and>
         (\<forall>k r. channels (band w) k = Some r \<longrightarrow>
            band (collect w k) = remove_channel (band w) r \<and>
            k \<notin> keys_by_key (remove_channel (band w) r) \<and>
            k \<notin> keys_by_parent (remove_channel (band w) r) \<and>
            k \<notin> keys_by_identifier (remove_channel (band w) r))"
proof (intro conjI allI impI)
  from assms have cw: "consistent w" by (rule reachable_consistent)
  from cw show "keys_by_key (band w) = keys_by_parent (band w)" by (rule keys_agree)
  from cw show "keys_by_parent (band w) = keys_by_identifier (band w)" by (rule keys_agree)
  fix k r
  assume r: "channels (band w) k = Some r"
  then show b: "band (collect w k) = remove_channel (band w) r" by (simp add: collect_registered)
  have cc: "consistent (collect w k)" using cw by (rule consistent_collect)
  from cw have "refs_ok w" by (simp add: consistent_def)
  then have rk: "ref_key r = k" using r by (rule refs_ok_key)
  show 1: "k \<notin> keys_by_key (remove_channel (band w) r)"
    by (simp add: keys_by_key_def remove_channel_fields rk)
  from keys_agree[OF cc] b have e: "keys_by_key (remove_channel (band w) r) = keys_by_parent (remove_channel (band w) r)"
    "keys_by_parent (remove_channel (band w) r) = keys_by_identifier (remove_channel (band w) r)"
    by simp_all
  from 1 e show "k \<notin> keys_by_parent (remove_channel (band w) r)" by simp
  from 1 e show "k \<notin> keys_by_identifier (remove_channel (band w) r)" by simp
qed

theorem registry_indices_agree_witness:
  "reachable example_world \<and>
   keys_by_key (band example_world) = keys_by_parent (band example_world) \<and>
   keys_by_parent (band example_world) = keys_by_identifier (band example_world) \<and>
   channels (band example_world) (''started'', ObjId 10) =
     Some \<lparr>ref_target = 13, ref_key = (''started'', ObjId 10)\<rparr> \<and>
   (''started'', ObjId 10) \<notin>
     keys_by_key (remove_channel (band example_world) \<lparr>ref_target = 13, ref_key = (''started'', ObjId 10)\<rparr>) \<and>
   (''started'', ObjId 10) \<notin>
     keys_by_parent (remove_channel (band example_world) \<lparr>ref_target = 13, ref_key = (''started'', ObjId 10)\<rparr>) \<and>
   (''started'', ObjId 10) \<notin>
     keys_by_identifier (remove_channel (band example_world) \<lparr>ref_target = 13, ref_key = (''started'', ObjId 10)\<rparr>)"
  using registry_indices_agree[OF example_world_reachable] example_world_reachable
    example_world_channels(2)
  by blast
section \<open>Resolution of the receivers of a send\<close>

lemma collides_Cons:
  "collides (p # ps) kwargs \<longleftrightarrow> p \<in> fst ` set kwargs \<or> collides ps kwargs"
  by (simp add: collides_def)

lemma connectable_ref_id: "connectable obj \<Longrightarrow> \<exists>rid. ref_id obj n = Inr rid"
  by (auto simp: connectable_def ref_id_def split: option.splits if_splits)

lemma stable_ref_id: "stable obj \<Longrightarrow> ref_id obj n = ref_id obj m"
  by (auto simp: stable_def ref_id_def split: option.splits if_splits)

lemma add_weak_connectable:
  assumes "connectable obj" and "ref_id obj n = Inr rid" and "rid \<notin> set (ids ws)"
  shows "\<exists>x. add ws obj False n = (\<lparr>refs = refs ws @ [x], ids = ids ws @ [rid]\<rparr>, None) \<and>
           stored_id x = rid \<and> (\<forall>e. call_ref e x = weak_call e obj)"
proof (cases "is_method obj")
  case False
  with assms have "add ws obj False n =
      (\<lparr>refs = refs ws @ [WeakRef obj rid], ids = ids ws @ [rid]\<rparr>, None)"
    by (simp add: add_def connectable_def WeakRef_init_def Let_def)
  moreover from False have "\<forall>e. call_ref e (WeakRef obj rid) = weak_call e obj"
    by (simp add: weak_call_def)
  ultimately show ?thesis by auto
next
  case True
  with assms(1) obtain name nid inst where a: "name_attr obj = Some (name, nid)"
    "self_attr obj = Some (inst, True)"
    by (auto simp: connectable_def split: option.splits)
  with True assms have "add ws obj False n =
      (\<lparr>refs = refs ws @ [WeakMeth name inst rid], ids = ids ws @ [rid]\<rparr>, None)"
    by (simp add: add_def WeakMeth_init_def Let_def)
  moreover from True a have "\<forall>e. call_ref e (WeakMeth name inst rid) = weak_call e obj"
    by (simp add: weak_call_def)
  ultimately show ?thesis by auto
qed

lemma iter_refs_snoc:
  "iter_refs e xs = (objs, None) \<Longrightarrow> call_ref e x = Inr (Some obj) \<Longrightarrow>
     iter_refs e (xs @ [x]) = (objs @ [obj], None)"
proof (induction xs arbitrary: objs)
  case Nil
  then show ?case by simp
next
  case (Cons y ys)
  show ?case
  proof (cases "call_ref e y")
    case (Inl err)
    with Cons.prems(1) show ?thesis by simp
  next
    case (Inr r)
    show ?thesis
    proof (cases r)
      case None
      with Inr Cons show ?thesis by simp
    next
      case (Some o')
      obtain objs' stop where t: "iter_refs e ys = (objs', stop)" by (cases "iter_refs e ys")
      with Inr Some Cons.prems(1) have "stop = None" "objs = o' # objs'" by simp_all
      with t Cons.IH[of objs'] Cons.prems(2) Inr Some show ?thesis by simp
    qed
  qed
qed

lemma add_all_distinct:
  assumes "list_all2 (\<lambda>g p. connectable g \<and> (\<forall>n. ref_id g n = Inr (fst p)) \<and>
              weak_call e g = Inr (Some (snd p))) gs ps"
    and "distinct (map fst ps)" and "set (map fst ps) \<inter> set (ids ws) = {}"
    and "iter e ws = (objs, None)"
  shows "\<exists>ws'. add_all ws gs names = Inr ws' \<and> iter e ws' = (objs @ map snd ps, None) \<and>
           ids ws' = ids ws @ map fst ps"
  using assms
proof (induction gs arbitrary: ws ps objs names)
  case Nil
  then show ?case by simp
next
  case (Cons g gs)
  from Cons.prems(1) obtain p ps' where r: "ps = p # ps'" "connectable g"
    "\<forall>n. ref_id g n = Inr (fst p)" "weak_call e g = Inr (Some (snd p))"
    "list_all2 (\<lambda>g p. connectable g \<and> (\<forall>n. ref_id g n = Inr (fst p)) \<and>
              weak_call e g = Inr (Some (snd p))) gs ps'"
    by (auto simp: list_all2_Cons1)
  from r(1) Cons.prems(3) have fresh: "fst p \<notin> set (ids ws)" by auto
  from r(3) have rid: "ref_id g (names 0) = Inr (fst p)" by simp
  from add_weak_connectable[OF r(2) rid fresh] obtain x where
    x: "add ws g False (names 0) = (\<lparr>refs = refs ws @ [x], ids = ids ws @ [fst p]\<rparr>, None)"
       "\<forall>e. call_ref e x = weak_call e g"
    by blast
  let ?ws1 = "\<lparr>refs = refs ws @ [x], ids = ids ws @ [fst p]\<rparr>"
  from r(1) Cons.prems(2,3) have d: "distinct (map fst ps')"
    "set (map fst ps') \<inter> set (ids ?ws1) = {}" by auto
  from x(2) r(4) have "call_ref e x = Inr (Some (snd p))" by simp
  with Cons.prems(4) have i1: "iter e ?ws1 = (objs @ [snd p], None)"
    by (simp add: iter_def iter_refs_snoc)
  from Cons.IH[OF r(5) d i1, of "\<lambda>i. names (Suc i)"] obtain ws' where
    w: "add_all ?ws1 gs (\<lambda>i. names (Suc i)) = Inr ws'"
       "iter e ws' = ((objs @ [snd p]) @ map snd ps', None)" "ids ws' = ids ?ws1 @ map fst ps'"
    by blast
  with x(1) r(1) show ?case by simp
qed

lemma dispatch_live_distinct:
  assumes "\<not> collides [''self'', ''identifier'', ''receivers'', ''receiver''] kwargs"
    and "list_all2 (\<lambda>g p. connectable g \<and> (\<forall>n. ref_id g n = Inr (fst p)) \<and>
              weak_call e g = Inr (Some (snd p))) gs ps"
    and "distinct (map fst ps)"
    and "list_all2 (\<lambda>h v. call h args kwargs = Inr v) (map snd ps) vs"
  shows "Dispatcher__dispatch DEFAULT_DISPATCHER e ident (gs, None) args kwargs names =
           (map (\<lambda>h. Called h args kwargs) (map snd ps), Inr vs)"
proof -
  from assms(1) have nc: "\<not> collides [''self'', ''identifier'', ''receivers''] kwargs"
    "\<not> collides [''self'', ''identifier'', ''receiver''] kwargs"
    by (simp_all add: collides_Cons)
  have "iter e WeakSet_empty = ([], None)" by (simp add: iter_def WeakSet_empty_def)
  from add_all_distinct[OF assms(2,3) _ this, of names] obtain ws where
    ws: "add_all WeakSet_empty gs names = Inr ws" "iter e ws = (map snd ps, None)"
    by (auto simp: WeakSet_empty_def)
  let ?ctx = "\<lparr>ctx_identifier = ident, ctx_receivers = ws, ctx_args = [VTuple args, VDict kwargs],
               ctx_kwargs = [], ctx_results = []\<rparr>"
  have c: "Context_init ident (gs, None) [VTuple args, VDict kwargs] [] names = Inr ?ctx"
    using ws(1) by (simp add: Context_init_def)
  have "call_receivers ident (map snd ps) args kwargs ?ctx =
      (map (\<lambda>h. Called h args kwargs) (map snd ps),
       Inr (?ctx\<lparr>ctx_results := ctx_results ?ctx @ vs\<rparr>))"
    using nc(2) assms(4) by (rule call_receivers_ok)
  then have "run_receivers DEFAULT_DISPATCHER e ident args kwargs ?ctx =
      (map (\<lambda>h. Called h args kwargs) (map snd ps), Inr vs)"
    using ws(2) by (simp add: run_receivers_def finish_dispatch_def DEFAULT_DISPATCHER_def)
  with c nc(1) show ?thesis by (simp add: Dispatcher__dispatch_def DEFAULT_DISPATCHER_def)
qed

lemma other_groups_consistent:
  assumes "consistent w" and "set ks \<subseteq> dom (channels (band w))"
  shows "\<exists>gs. other_groups w a ks = (gs, None) \<and>
           list_all2 (registered_group w)
             (filter (\<lambda>k. \<forall>r. channels (band w) k = Some r \<longrightarrow> ref_target r \<noteq> a) ks) gs"
  using assms(2)
proof (induction ks)
  case Nil
  then show ?case by simp
next
  case (Cons k ks)
  from Cons.prems obtain r where r: "channels (band w) k = Some r" by auto
  from deref_registered[OF assms(1) r] obtain chan where
    c: "deref w r = Some (ref_target r, chan)" "heap w (ref_target r) = Some chan"
    by blast
  from Cons obtain gs where gs: "other_groups w a ks = (gs, None)"
    "list_all2 (registered_group w)
       (filter (\<lambda>k. \<forall>r. channels (band w) k = Some r \<longrightarrow> ref_target r \<noteq> a) ks) gs"
    by auto
  show ?case
  proof (cases "ref_target r = a")
    case True
    with r c gs show ?thesis by simp
  next
    case False
    have "registered_group w k (receivers_id chan, receivers chan)"
      using r c(2) by (auto simp: registered_group_def)
    with False r c gs show ?thesis by simp
  qed
qed

lemma resolution_unbound:
  assumes "consistent w" and "channels (band w) k = Some r" and "heap w (ref_target r) = Some chan"
    and "\<not> bound chan"
  shows "\<exists>gs. get_channel_receivers w (ref_target r) chan =
                ((receivers_id chan, receivers chan) # gs, None) \<and>
           list_all2 (registered_group w)
             (filter (\<lambda>k'. k' \<noteq> k) (by_identifier (band w) (identifier chan))) gs"
proof -
  let ?ks = "by_identifier (band w) (identifier chan)"
  from assms(1) have ro: "refs_ok w" and io: "by_identifier_ok (band w)"
    by (simp_all add: consistent_def)
  from io have sub: "set ?ks \<subseteq> dom (channels (band w))"
    unfolding by_identifier_ok_def by blast
  from other_groups_consistent[OF assms(1) sub, of "ref_target r"] obtain gs where
    gs: "other_groups w (ref_target r) ?ks = (gs, None)"
      "list_all2 (registered_group w)
         (filter (\<lambda>k. \<forall>r'. channels (band w) k = Some r' \<longrightarrow> ref_target r' \<noteq> ref_target r) ?ks) gs"
    by blast
  have E: "\<And>k'. k' \<in> set ?ks \<Longrightarrow>
      (\<forall>r'. channels (band w) k' = Some r' \<longrightarrow> ref_target r' \<noteq> ref_target r) = (k' \<noteq> k)"
  proof -
    fix k'
    assume "k' \<in> set ?ks"
    with sub obtain r' where r': "channels (band w) k' = Some r'" by auto
    show "(\<forall>r'. channels (band w) k' = Some r' \<longrightarrow> ref_target r' \<noteq> ref_target r) = (k' \<noteq> k)"
      using target_inj[OF ro r' assms(2)] r' assms(2) by auto
  qed
  have "filter (\<lambda>k. \<forall>r'. channels (band w) k = Some r' \<longrightarrow> ref_target r' \<noteq> ref_target r) ?ks =
      filter (\<lambda>k'. k' \<noteq> k) ?ks"
    by (rule filter_cong[OF refl]) (rule E)
  with gs assms(4) show ?thesis by (simp add: get_channel_receivers_def)
qed

lemma resolution_bound:
  assumes "consistent w" and "bound chan"
  shows "(channels (band w) (identifier chan, NoneId) = None \<longrightarrow>
            get_channel_receivers w a chan = ([(receivers_id chan, receivers chan)], None)) \<and>
         (channels (band w) (identifier chan, NoneId) \<noteq> None \<longrightarrow>
            (\<exists>g. registered_group w (identifier chan, NoneId) g \<and>
               get_channel_receivers w a chan = ([(receivers_id chan, receivers chan), g], None)))"
proof (cases "channels (band w) (identifier chan, NoneId)")
  case None
  with assms(2) show ?thesis by (simp add: get_channel_receivers_def)
next
  case (Some u)
  from deref_registered[OF assms(1) Some] obtain any_chan where
    c: "deref w u = Some (ref_target u, any_chan)" "heap w (ref_target u) = Some any_chan"
    by blast
  have "registered_group w (identifier chan, NoneId) (receivers_id any_chan, receivers any_chan)"
    using Some c(2) by (auto simp: registered_group_def)
  with Some c assms(2) show ?thesis by (auto simp: get_channel_receivers_def)
qed

lemma creation_order:
  assumes "channels (band w) (ident, id_of p) = None"
    and "Band_channel w ident p alloc = Inr (c, w')"
  shows "by_identifier (band w') ident = by_identifier (band w) ident @ [(ident, id_of p)]"
  using Band_channel_new[OF assms] by auto

lemma collect_order:
  assumes "consistent w"
  shows "by_identifier (band (collect w k)) i = filter (\<lambda>k'. k' \<noteq> k) (by_identifier (band w) i)"
proof (cases "channels (band w) k")
  case None
  from assms have io: "by_identifier_ok (band w)" by (simp add: consistent_def)
  with None have "k \<notin> set (by_identifier (band w) i)"
    unfolding by_identifier_ok_def by auto
  then have "filter (\<lambda>k'. k' \<noteq> k) (by_identifier (band w) i) = by_identifier (band w) i"
    by (rule filter_neq_id)
  with None show ?thesis by (simp add: collect_unregistered)
next
  case (Some r)
  from assms have ro: "refs_ok w" and io: "by_identifier_ok (band w)"
    by (simp_all add: consistent_def)
  have rk: "ref_key r = k" using ro Some by (rule refs_ok_key)
  from io have d: "distinct (by_identifier (band w) i)"
    and s: "set (by_identifier (band w) i) = {k \<in> dom (channels (band w)). fst k = i}"
    unfolding by_identifier_ok_def by simp_all
  show ?thesis
  proof (cases "fst k = i")
    case True
    with Some rk d show ?thesis
      by (simp add: collect_registered remove_channel_fields remove1_filter_distinct)
  next
    case False
    with s have "k \<notin> set (by_identifier (band w) i)" by auto
    then have "filter (\<lambda>k'. k' \<noteq> k) (by_identifier (band w) i) = by_identifier (band w) i"
      by (rule filter_neq_id)
    with False Some rk show ?thesis
      by (simp add: collect_registered remove_channel_fields)
  qed
qed


lemma iter_single:
  "\<forall>e. call_ref e x = weak_call e f \<Longrightarrow> weak_call e f = Inr (Some g) \<Longrightarrow>
     iter e \<lparr>refs = [x], ids = [rid]\<rparr> = ([g], None)"
  by (simp add: iter_def)

lemma visibility_scenario:
  assumes d: "distinct [fst allocU, fst alloc1, fst alloc2]" and o: "owner_id o1 \<noteq> owner_id o2"
    and acc: "acceptable_owner (Some o1)" "acceptable_owner (Some o2)"
    and nc: "\<not> collides [''self'', ''identifier'', ''receivers'', ''receiver''] kwargs"
    and con: "connectable fu" "connectable f1" "connectable f2"
    and giv: "weak_call e fu = Inr (Some gu)" "weak_call e f1 = Inr (Some g1)"
      "weak_call e f2 = Inr (Some g2)"
    and con': "connectable gu" "connectable g1" "connectable g2"
    and st: "stable gu" "stable g1" "stable g2"
    and ids: "ref_id gu 0 = Inr ru" "ref_id g1 0 = Inr r1" "ref_id g2 0 = Inr r2"
      "distinct [ru, r1, r2]"
    and giv': "weak_call e gu = Inr (Some hu)" "weak_call e g1 = Inr (Some h1)"
      "weak_call e g2 = Inr (Some h2)"
    and calls: "call hu args kwargs = Inr vu" "call h1 args kwargs = Inr v1"
      "call h2 args kwargs = Inr v2"
  shows "\<exists>w3 cU c1.
           run world_init
             (visibility_actions ident o1 o2 (fu, nu) (f1, n1) (f2, n2) allocU alloc1 alloc2) =
             Some w3 \<and>
           heap w3 (fst allocU) = Some cU \<and> heap w3 (fst alloc1) = Some c1 \<and>
           \<not> bound cU \<and> bound c1 \<and>
           Channel_send w3 e (fst alloc1) c1 args kwargs names1 =
             ([Called h1 args kwargs, Called hu args kwargs], Inr [v1, vu]) \<and>
           Channel_send w3 e (fst allocU) cU args kwargs namesU =
             ([Called hu args kwargs, Called h1 args kwargs, Called h2 args kwargs],
              Inr [vu, v1, v2])"
proof -
  obtain aU sU where aU: "allocU = (aU, sU)" by (cases allocU)
  obtain a1 s1 where a1: "alloc1 = (a1, s1)" by (cases alloc1)
  obtain a2 s2 where a2: "alloc2 = (a2, s2)" by (cases alloc2)
  from d aU a1 a2 have ne: "aU \<noteq> a1" "aU \<noteq> a2" "a1 \<noteq> a2" "a1 \<noteq> aU" "a2 \<noteq> aU" "a2 \<noteq> a1"
    by auto
  from o have ne_o: "owner_id o2 \<noteq> owner_id o1" by simp
  from acc have ok: "\<not> (owner_truthy o1 \<and> \<not> owner_weakrefable o1)"
    "\<not> (owner_truthy o2 \<and> \<not> owner_weakrefable o2)"
    by (auto simp: acceptable_owner_def)
  from nc have ncs: "\<not> collides [''self''] kwargs"
    "\<not> collides [''self'', ''identifier'', ''receivers''] kwargs"
    by (simp_all add: collides_Cons)
  from connectable_ref_id[OF con(1), of nu] obtain iu where iu: "ref_id fu nu = Inr iu" by blast
  from connectable_ref_id[OF con(2), of n1] obtain i1 where i1: "ref_id f1 n1 = Inr i1" by blast
  from connectable_ref_id[OF con(3), of n2] obtain i2 where i2: "ref_id f2 n2 = Inr i2" by blast
  from add_weak_connectable[OF con(1) iu, of WeakSet_empty] obtain xu where
    xu: "add WeakSet_empty fu False nu = (\<lparr>refs = [xu], ids = [iu]\<rparr>, None)"
        "\<forall>e. call_ref e xu = weak_call e fu"
    by (auto simp: WeakSet_empty_def)
  from add_weak_connectable[OF con(2) i1, of WeakSet_empty] obtain x1 where
    x1: "add WeakSet_empty f1 False n1 = (\<lparr>refs = [x1], ids = [i1]\<rparr>, None)"
        "\<forall>e. call_ref e x1 = weak_call e f1"
    by (auto simp: WeakSet_empty_def)
  from add_weak_connectable[OF con(3) i2, of WeakSet_empty] obtain x2 where
    x2: "add WeakSet_empty f2 False n2 = (\<lparr>refs = [x2], ids = [i2]\<rparr>, None)"
        "\<forall>e. call_ref e x2 = weak_call e f2"
    by (auto simp: WeakSet_empty_def)
  let ?cU = "\<lparr>identifier = ident, parent = None, receivers_id = sU,
              receivers = \<lparr>refs = [xu], ids = [iu]\<rparr>\<rparr>"
  let ?c1 = "\<lparr>identifier = ident, parent = Some o1, receivers_id = s1,
              receivers = \<lparr>refs = [x1], ids = [i1]\<rparr>\<rparr>"
  let ?c2 = "\<lparr>identifier = ident, parent = Some o2, receivers_id = s2,
              receivers = \<lparr>refs = [x2], ids = [i2]\<rparr>\<rparr>"
  let ?acts = "visibility_actions ident o1 o2 (fu, nu) (f1, n1) (f2, n2) allocU alloc1 alloc2"
  define w3 where "w3 = (case run world_init ?acts of None \<Rightarrow> world_init | Some w \<Rightarrow> w)"
  note ev = visibility_actions_def world_init_def Band_init_def Band_channel_def Channel_init_def
    deref_def connect_def Let_def aU a1 a2 ne o ne_o ok xu(1) x1(1) x2(1)
  have R: "run world_init ?acts = Some w3"
    by (simp add: w3_def ev)
  have H: "heap w3 aU = Some ?cU" "heap w3 a1 = Some ?c1" "heap w3 a2 = Some ?c2"
    by (simp_all add: w3_def ev)
  have D: "dispatcher (band w3) = DEFAULT_DISPATCHER"
    by (simp add: w3_def ev)
  have C: "channels (band w3) (ident, NoneId) = Some \<lparr>ref_target = aU, ref_key = (ident, NoneId)\<rparr>"
    "channels (band w3) (ident, ObjId (owner_id o1)) =
       Some \<lparr>ref_target = a1, ref_key = (ident, ObjId (owner_id o1))\<rparr>"
    "channels (band w3) (ident, ObjId (owner_id o2)) =
       Some \<lparr>ref_target = a2, ref_key = (ident, ObjId (owner_id o2))\<rparr>"
    by (simp_all add: w3_def ev)
  have I: "by_identifier (band w3) ident =
      [(ident, NoneId), (ident, ObjId (owner_id o1)), (ident, ObjId (owner_id o2))]"
    by (simp add: w3_def ev)
  have G1: "get_channel_receivers w3 a1 ?c1 =
      ([(s1, \<lparr>refs = [x1], ids = [i1]\<rparr>), (sU, \<lparr>refs = [xu], ids = [iu]\<rparr>)], None)"
    by (simp add: get_channel_receivers_def bound_def C deref_def H)
  have GU: "get_channel_receivers w3 aU ?cU =
      ([(sU, \<lparr>refs = [xu], ids = [iu]\<rparr>), (s1, \<lparr>refs = [x1], ids = [i1]\<rparr>),
        (s2, \<lparr>refs = [x2], ids = [i2]\<rparr>)], None)"
    by (simp add: get_channel_receivers_def bound_def C I deref_def H ne)
  note it = iter_single[OF xu(2) giv(1)] iter_single[OF x1(2) giv(2)] iter_single[OF x2(2) giv(3)]
  have R1: "get_receivers w3 e a1 ?c1 = ([g1, gu], None)"
    by (simp add: get_receivers_def G1 it)
  have RU: "get_receivers w3 e aU ?cU = ([gu, g1, g2], None)"
    by (simp add: get_receivers_def GU it)
  have sid: "\<forall>n. ref_id gu n = Inr ru" "\<forall>n. ref_id g1 n = Inr r1" "\<forall>n. ref_id g2 n = Inr r2"
    using stable_ref_id[OF st(1)] stable_ref_id[OF st(2)] stable_ref_id[OF st(3)] ids(1,2,3)
    by metis+
  have S1: "Channel_send w3 e a1 ?c1 args kwargs names1 =
      ([Called h1 args kwargs, Called hu args kwargs], Inr [v1, vu])"
    unfolding Channel_send_def Band_dispatch_def D R1
    using dispatch_live_distinct[OF nc, of e "[g1, gu]" "[(r1, h1), (ru, hu)]" args "[v1, vu]"
        ident names1]
      con' sid giv' ids(4) calls ncs by auto
  have SU: "Channel_send w3 e aU ?cU args kwargs namesU =
      ([Called hu args kwargs, Called h1 args kwargs, Called h2 args kwargs], Inr [vu, v1, v2])"
    unfolding Channel_send_def Band_dispatch_def D RU
    using dispatch_live_distinct[OF nc, of e "[gu, g1, g2]" "[(ru, hu), (r1, h1), (r2, h2)]" args
        "[vu, v1, v2]" ident namesU]
      con' sid giv' ids(4) calls ncs by auto
  have B: "\<not> bound ?cU" "bound ?c1" by (simp_all add: bound_def)
  from R H(1,2) B S1 SU show ?thesis
    unfolding aU a1 fst_conv by blast
qed


text \<open>
  Claim C2: for a Channel \<open>c\<close> of a Band, a send on \<open>c\<close> resolves to the group of \<open>c\<close>
  followed, when \<open>c\<close> is bound, by the group of the unbound Channel of the same
  identifier if there is one, and when \<open>c\<close> is unbound, by the groups of all other
  registered Channels of the same identifier in creation order; so with an unbound
  Channel and the Channels of two owners, created in this order with one receiver each,
  a send on the first owner's Channel returns its result and then the unbound one's, and
  a send on the unbound Channel returns its result and then those of the two owners.
  Here \<open>c\<close> is the live Channel registered under \<open>k\<close> in a reachable world. The list of
  \<open>by_identifier\<close> is in creation order: a created Channel is appended to it and a
  collection deletes one key from it. The scenario is stated for any two acceptable
  owners with different identities, any three different addresses, keyword arguments
  that do not have the name of a parameter of the functions the send goes through, and
  any three receivers \<open>fu\<close>, \<open>f1\<close>, \<open>f2\<close> that can be held weakly. A weak reference to
  a function gives the function while it is alive, and a weak reference to a method
  gives the attribute that the method's name has on its instance: \<open>gu\<close>, \<open>g1\<close>, \<open>g2\<close>
  are what the references of the three Channels give. The set of the Context holds
  these weakly in turn: they can be held weakly and have identities that are the same
  at every call and differ from each other, and \<open>hu\<close>, \<open>h1\<close>, \<open>h2\<close> are what its
  references give. These are the callables a send calls, and they return.
\<close>

theorem resolution_order:
  assumes "reachable w" and "channels (band w) k = Some r" and "heap w (ref_target r) = Some chan"
  shows "(bound chan \<and> channels (band w) (identifier chan, NoneId) = None \<longrightarrow>
            get_channel_receivers w (ref_target r) chan =
              ([(receivers_id chan, receivers chan)], None)) \<and>
         (bound chan \<and> channels (band w) (identifier chan, NoneId) \<noteq> None \<longrightarrow>
            (\<exists>g. registered_group w (identifier chan, NoneId) g \<and>
               get_channel_receivers w (ref_target r) chan =
                 ([(receivers_id chan, receivers chan), g], None))) \<and>
         (\<not> bound chan \<longrightarrow>
            (\<exists>gs. get_channel_receivers w (ref_target r) chan =
                    ((receivers_id chan, receivers chan) # gs, None) \<and>
               list_all2 (registered_group w)
                 (filter (\<lambda>k'. k' \<noteq> k) (by_identifier (band w) (identifier chan))) gs)) \<and>
         (channels (band w) (ident, id_of p) = None \<and> Band_channel w ident p alloc = Inr (c, w') \<longrightarrow>
            by_identifier (band w') ident = by_identifier (band w) ident @ [(ident, id_of p)]) \<and>
         by_identifier (band (collect w k')) i = filter (\<lambda>x. x \<noteq> k') (by_identifier (band w) i) \<and>
         (distinct [fst allocU, fst alloc1, fst alloc2] \<and> owner_id o1 \<noteq> owner_id o2 \<and>
          acceptable_owner (Some o1) \<and> acceptable_owner (Some o2) \<and>
          \<not> collides [''self'', ''identifier'', ''receivers'', ''receiver''] kwargs \<and>
          connectable fu \<and> connectable f1 \<and> connectable f2 \<and>
          weak_call e fu = Inr (Some gu) \<and> weak_call e f1 = Inr (Some g1) \<and>
          weak_call e f2 = Inr (Some g2) \<and>
          connectable gu \<and> connectable g1 \<and> connectable g2 \<and>
          stable gu \<and> stable g1 \<and> stable g2 \<and>
          ref_id gu 0 = Inr ru \<and> ref_id g1 0 = Inr r1 \<and> ref_id g2 0 = Inr r2 \<and>
          distinct [ru, r1, r2] \<and>
          weak_call e gu = Inr (Some hu) \<and> weak_call e g1 = Inr (Some h1) \<and>
          weak_call e g2 = Inr (Some h2) \<and>
          call hu args kwargs = Inr vu \<and> call h1 args kwargs = Inr v1 \<and>
          call h2 args kwargs = Inr v2 \<longrightarrow>
            (\<exists>w3 cU c1.
               run world_init
                 (visibility_actions ident' o1 o2 (fu, nu) (f1, n1) (f2, n2) allocU alloc1 alloc2) =
                 Some w3 \<and>
               heap w3 (fst allocU) = Some cU \<and> heap w3 (fst alloc1) = Some c1 \<and>
               \<not> bound cU \<and> bound c1 \<and>
               Channel_send w3 e (fst alloc1) c1 args kwargs names1 =
                 ([Called h1 args kwargs, Called hu args kwargs], Inr [v1, vu]) \<and>
               Channel_send w3 e (fst allocU) cU args kwargs namesU =
                 ([Called hu args kwargs, Called h1 args kwargs, Called h2 args kwargs],
                  Inr [vu, v1, v2])))"
proof -
  from assms(1) have cw: "consistent w" by (rule reachable_consistent)
  have 1: "bound chan \<and> channels (band w) (identifier chan, NoneId) = None \<longrightarrow>
            get_channel_receivers w (ref_target r) chan =
              ([(receivers_id chan, receivers chan)], None)"
    using resolution_bound[OF cw] by blast
  have 2: "bound chan \<and> channels (band w) (identifier chan, NoneId) \<noteq> None \<longrightarrow>
            (\<exists>g. registered_group w (identifier chan, NoneId) g \<and>
               get_channel_receivers w (ref_target r) chan =
                 ([(receivers_id chan, receivers chan), g], None))"
    using resolution_bound[OF cw] by blast
  have 3: "\<not> bound chan \<longrightarrow>
            (\<exists>gs. get_channel_receivers w (ref_target r) chan =
                    ((receivers_id chan, receivers chan) # gs, None) \<and>
               list_all2 (registered_group w)
                 (filter (\<lambda>k'. k' \<noteq> k) (by_identifier (band w) (identifier chan))) gs)"
    using resolution_unbound[OF cw assms(2,3)] by blast
  have 4: "channels (band w) (ident, id_of p) = None \<and> Band_channel w ident p alloc = Inr (c, w') \<longrightarrow>
            by_identifier (band w') ident = by_identifier (band w) ident @ [(ident, id_of p)]"
    using creation_order by blast
  have 5: "by_identifier (band (collect w k')) i = filter (\<lambda>x. x \<noteq> k') (by_identifier (band w) i)"
    using cw by (rule collect_order)
  have 6: "distinct [fst allocU, fst alloc1, fst alloc2] \<and> owner_id o1 \<noteq> owner_id o2 \<and>
          acceptable_owner (Some o1) \<and> acceptable_owner (Some o2) \<and>
          \<not> collides [''self'', ''identifier'', ''receivers'', ''receiver''] kwargs \<and>
          connectable fu \<and> connectable f1 \<and> connectable f2 \<and>
          weak_call e fu = Inr (Some gu) \<and> weak_call e f1 = Inr (Some g1) \<and>
          weak_call e f2 = Inr (Some g2) \<and>
          connectable gu \<and> connectable g1 \<and> connectable g2 \<and>
          stable gu \<and> stable g1 \<and> stable g2 \<and>
          ref_id gu 0 = Inr ru \<and> ref_id g1 0 = Inr r1 \<and> ref_id g2 0 = Inr r2 \<and>
          distinct [ru, r1, r2] \<and>
          weak_call e gu = Inr (Some hu) \<and> weak_call e g1 = Inr (Some h1) \<and>
          weak_call e g2 = Inr (Some h2) \<and>
          call hu args kwargs = Inr vu \<and> call h1 args kwargs = Inr v1 \<and>
          call h2 args kwargs = Inr v2 \<longrightarrow>
            (\<exists>w3 cU c1.
               run world_init
                 (visibility_actions ident' o1 o2 (fu, nu) (f1, n1) (f2, n2) allocU alloc1 alloc2) =
                 Some w3 \<and>
               heap w3 (fst allocU) = Some cU \<and> heap w3 (fst alloc1) = Some c1 \<and>
               \<not> bound cU \<and> bound c1 \<and>
               Channel_send w3 e (fst alloc1) c1 args kwargs names1 =
                 ([Called h1 args kwargs, Called hu args kwargs], Inr [v1, vu]) \<and>
               Channel_send w3 e (fst allocU) cU args kwargs namesU =
                 ([Called hu args kwargs, Called h1 args kwargs, Called h2 args kwargs],
                  Inr [vu, v1, v2]))"
  proof
    assume h: "distinct [fst allocU, fst alloc1, fst alloc2] \<and> owner_id o1 \<noteq> owner_id o2 \<and>
          acceptable_owner (Some o1) \<and> acceptable_owner (Some o2) \<and>
          \<not> collides [''self'', ''identifier'', ''receivers'', ''receiver''] kwargs \<and>
          connectable fu \<and> connectable f1 \<and> connectable f2 \<and>
          weak_call e fu = Inr (Some gu) \<and> weak_call e f1 = Inr (Some g1) \<and>
          weak_call e f2 = Inr (Some g2) \<and>
          connectable gu \<and> connectable g1 \<and> connectable g2 \<and>
          stable gu \<and> stable g1 \<and> stable g2 \<and>
          ref_id gu 0 = Inr ru \<and> ref_id g1 0 = Inr r1 \<and> ref_id g2 0 = Inr r2 \<and>
          distinct [ru, r1, r2] \<and>
          weak_call e gu = Inr (Some hu) \<and> weak_call e g1 = Inr (Some h1) \<and>
          weak_call e g2 = Inr (Some h2) \<and>
          call hu args kwargs = Inr vu \<and> call h1 args kwargs = Inr v1 \<and>
          call h2 args kwargs = Inr v2"
    show "\<exists>w3 cU c1.
               run world_init
                 (visibility_actions ident' o1 o2 (fu, nu) (f1, n1) (f2, n2) allocU alloc1 alloc2) =
                 Some w3 \<and>
               heap w3 (fst allocU) = Some cU \<and> heap w3 (fst alloc1) = Some c1 \<and>
               \<not> bound cU \<and> bound c1 \<and>
               Channel_send w3 e (fst alloc1) c1 args kwargs names1 =
                 ([Called h1 args kwargs, Called hu args kwargs], Inr [v1, vu]) \<and>
               Channel_send w3 e (fst allocU) cU args kwargs namesU =
                 ([Called hu args kwargs, Called h1 args kwargs, Called h2 args kwargs],
                  Inr [vu, v1, v2])"
      by (rule visibility_scenario) (use h in blast)+
  qed
  from 1 2 3 4 5 6 show ?thesis by (intro conjI)
qed


lemma example_world_heap_13:
  "heap example_world 13 =
     Some \<lparr>identifier = ''started'', parent = Some (example_owner 10), receivers_id = 14,
           receivers = \<lparr>refs = [WeakRef (plain_function 32 (VStr ''B1'')) (IdOne 32)],
                        ids = [IdOne 32]\<rparr>\<rparr>"
  by (simp add: example_world_heap_all)

lemma example_world_by_identifier:
  "by_identifier (band example_world) ''started'' =
     [(''started'', NoneId), (''started'', ObjId 10), (''started'', ObjId 20)]"
  "by_identifier (band example_world) ''stopped'' = []"
  by (simp_all add: example_world_band)

lemma collected_world_reachable: "reachable (collect example_world (''started'', NoneId))"
  using reachable_run[OF example_world_reachable, of "[Collect (''started'', NoneId)]"] by simp

lemma collected_world_facts:
  "channels (band (collect example_world (''started'', NoneId))) (''started'', ObjId 10) =
     Some \<lparr>ref_target = 13, ref_key = (''started'', ObjId 10)\<rparr>"
  "channels (band (collect example_world (''started'', NoneId))) (''started'', NoneId) = None"
  "heap (collect example_world (''started'', NoneId)) 13 = heap example_world 13"
  by (simp_all add: collect_def remove_channel_def example_world_band example_world_heap_all)

theorem resolution_order_witness:
  "reachable example_world \<and>
   channels (band example_world) (''started'', ObjId 10) =
     Some \<lparr>ref_target = 13, ref_key = (''started'', ObjId 10)\<rparr> \<and>
   (\<exists>c1 cU g gs w' wc.
      heap example_world 13 = Some c1 \<and> bound c1 \<and>
      channels (band example_world) (identifier c1, NoneId) \<noteq> None \<and>
      registered_group example_world (identifier c1, NoneId) g \<and>
      get_channel_receivers example_world 13 c1 = ([(receivers_id c1, receivers c1), g], None) \<and>
      reachable (collect example_world (''started'', NoneId)) \<and>
      heap (collect example_world (''started'', NoneId)) 13 = Some c1 \<and>
      channels (band (collect example_world (''started'', NoneId))) (identifier c1, NoneId) = None \<and>
      get_channel_receivers (collect example_world (''started'', NoneId)) 13 c1 =
        ([(receivers_id c1, receivers c1)], None) \<and>
      channels (band example_world) (''started'', NoneId) =
        Some \<lparr>ref_target = 11, ref_key = (''started'', NoneId)\<rparr> \<and>
      heap example_world 11 = Some cU \<and> \<not> bound cU \<and>
      get_channel_receivers example_world 11 cU = ((receivers_id cU, receivers cU) # gs, None) \<and>
      list_all2 (registered_group example_world) [(''started'', ObjId 10), (''started'', ObjId 20)] gs \<and>
      channels (band example_world) (''stopped'', id_of None) = None \<and>
      Band_channel example_world ''stopped'' None (7, 8) = Inr (wc, w') \<and>
      by_identifier (band w') ''stopped'' = [(''stopped'', NoneId)] \<and>
      by_identifier (band (collect example_world (''started'', ObjId 10))) ''started'' =
        [(''started'', NoneId), (''started'', ObjId 20)]) \<and>
   distinct [fst (11::nat, 12::nat), fst (13::nat, 14::nat), fst (15::nat, 16::nat)] \<and>
   owner_id (example_owner 10) \<noteq> owner_id (example_owner 20) \<and>
   acceptable_owner (Some (example_owner 10)) \<and> acceptable_owner (Some (example_owner 20)) \<and>
   \<not> collides [''self'', ''identifier'', ''receivers'', ''receiver''] [] \<and>
   connectable (plain_function 31 (VStr ''U'')) \<and> connectable (plain_function 32 (VStr ''B1'')) \<and>
   connectable (plain_function 33 (VStr ''B2'')) \<and>
   weak_call all_alive (plain_function 31 (VStr ''U'')) = Inr (Some (plain_function 31 (VStr ''U''))) \<and>
   weak_call all_alive (plain_function 32 (VStr ''B1'')) = Inr (Some (plain_function 32 (VStr ''B1''))) \<and>
   weak_call all_alive (plain_function 33 (VStr ''B2'')) = Inr (Some (plain_function 33 (VStr ''B2''))) \<and>
   stable (plain_function 31 (VStr ''U'')) \<and> stable (plain_function 32 (VStr ''B1'')) \<and>
   stable (plain_function 33 (VStr ''B2'')) \<and>
   ref_id (plain_function 31 (VStr ''U'')) 0 = Inr (IdOne 31) \<and>
   ref_id (plain_function 32 (VStr ''B1'')) 0 = Inr (IdOne 32) \<and>
   ref_id (plain_function 33 (VStr ''B2'')) 0 = Inr (IdOne 33) \<and>
   distinct [IdOne 31, IdOne 32, IdOne 33] \<and>
   call (plain_function 31 (VStr ''U'')) [] [] = Inr (VStr ''U'') \<and>
   call (plain_function 32 (VStr ''B1'')) [] [] = Inr (VStr ''B1'') \<and>
   call (plain_function 33 (VStr ''B2'')) [] [] = Inr (VStr ''B2'') \<and>
   (\<exists>w3 cU c1.
      run world_init
        (visibility_actions ''started'' (example_owner 10) (example_owner 20)
           (plain_function 31 (VStr ''U''), 0) (plain_function 32 (VStr ''B1''), 0)
           (plain_function 33 (VStr ''B2''), 0) (11, 12) (13, 14) (15, 16)) = Some w3 \<and>
      heap w3 11 = Some cU \<and> heap w3 13 = Some c1 \<and> \<not> bound cU \<and> bound c1 \<and>
      snd (Channel_send w3 all_alive 13 c1 [] [] (\<lambda>i. 0)) = Inr [VStr ''B1'', VStr ''U''] \<and>
      snd (Channel_send w3 all_alive 11 cU [] [] (\<lambda>i. 0)) =
        Inr [VStr ''U'', VStr ''B1'', VStr ''B2''])"
proof -
  let ?fu = "plain_function 31 (VStr ''U'')"
  let ?f1 = "plain_function 32 (VStr ''B1'')"
  let ?f2 = "plain_function 33 (VStr ''B2'')"
  let ?c1 = "\<lparr>identifier = ''started'', parent = Some (example_owner 10), receivers_id = 14,
           receivers = \<lparr>refs = [WeakRef ?f1 (IdOne 32)], ids = [IdOne 32]\<rparr>\<rparr>"
  let ?cU = "\<lparr>identifier = ''started'', parent = None, receivers_id = 12,
           receivers = \<lparr>refs = [WeakRef ?fu (IdOne 31)], ids = [IdOne 31]\<rparr>\<rparr>"
  let ?wc = "collect example_world (''started'', NoneId)"
  have h1: "heap example_world (ref_target \<lparr>ref_target = 13, ref_key = (''started'', ObjId 10)\<rparr>) = Some ?c1"
    by (simp add: example_world_heap_13)
  have hU: "heap example_world (ref_target \<lparr>ref_target = 11, ref_key = (''started'', NoneId)\<rparr>) = Some ?cU"
    by (simp add: example_world_heap)
  have hc: "heap ?wc (ref_target \<lparr>ref_target = 13, ref_key = (''started'', ObjId 10)\<rparr>) = Some ?c1"
    by (simp add: collected_world_facts example_world_heap_13)
  have b: "bound ?c1" "\<not> bound ?cU" "identifier ?c1 = ''started''" by (simp_all add: bound_def)
  have some: "channels (band example_world) (identifier ?c1, NoneId) \<noteq> None"
    by (simp add: example_world_channels)
  have none: "channels (band ?wc) (identifier ?c1, NoneId) = None"
    by (simp add: collected_world_facts)
  have st: "channels (band example_world) (''stopped'', id_of None) = None"
    by (simp add: example_world_channels)
  obtain wc w' where bc: "Band_channel example_world ''stopped'' None (7, 8) = Inr (wc, w')"
    using Band_channel_returns[of None example_world "''stopped''" "(7, 8)"]
    by (auto simp: acceptable_owner_def)
  have sc: "distinct [fst (11::nat, 12::nat), fst (13::nat, 14::nat), fst (15::nat, 16::nat)]"
    "owner_id (example_owner 10) \<noteq> owner_id (example_owner 20)"
    "acceptable_owner (Some (example_owner 10))" "acceptable_owner (Some (example_owner 20))"
    "\<not> collides [''self'', ''identifier'', ''receivers'', ''receiver''] []"
    "connectable ?fu" "connectable ?f1" "connectable ?f2"
    "weak_call all_alive ?fu = Inr (Some ?fu)" "weak_call all_alive ?f1 = Inr (Some ?f1)"
    "weak_call all_alive ?f2 = Inr (Some ?f2)"
    "stable ?fu" "stable ?f1" "stable ?f2"
    "ref_id ?fu 0 = Inr (IdOne 31)" "ref_id ?f1 0 = Inr (IdOne 32)" "ref_id ?f2 0 = Inr (IdOne 33)"
    "distinct [IdOne 31, IdOne 32, IdOne 33]"
    "call ?fu [] [] = Inr (VStr ''U'')" "call ?f1 [] [] = Inr (VStr ''B1'')"
    "call ?f2 [] [] = Inr (VStr ''B2'')"
    by (simp_all add: example_owner_def acceptable_owner_def connectable_def is_method_def
          ref_id_def call_def example_defs collides_def weak_call_def stable_def)
  note T1 = resolution_order[OF example_world_reachable example_world_channels(2) h1,
      where ident = "''stopped''" and p = None and alloc = "(7, 8)" and c = wc and w' = w'
      and k' = "(''started'', ObjId 10)" and i = "''started''"
      and allocU = "(11, 12)" and ?alloc1.0 = "(13, 14)" and ?alloc2.0 = "(15, 16)"
      and ?o1.0 = "example_owner 10" and ?o2.0 = "example_owner 20"
      and fu = ?fu and ?f1.0 = ?f1 and ?f2.0 = ?f2 and e = all_alive
      and gu = ?fu and ?g1.0 = ?f1 and ?g2.0 = ?f2 and hu = ?fu and ?h1.0 = ?f1 and ?h2.0 = ?f2
      and nu = 0 and ?n1.0 = 0 and ?n2.0 = 0 and ?names1.0 = "\<lambda>i. 0" and namesU = "\<lambda>i. 0"
      and ru = "IdOne 31" and ?r1.0 = "IdOne 32" and ?r2.0 = "IdOne 33"
      and args = "[]" and kwargs = "[]" and vu = "VStr ''U''" and ?v1.0 = "VStr ''B1''"
      and ?v2.0 = "VStr ''B2''" and ident' = "''started''"]
  note TU = resolution_order[OF example_world_reachable example_world_channels(1) hU]
  note TC = resolution_order[OF collected_world_reachable collected_world_facts(1) hc]
  note T1_bound = T1[THEN conjunct2, THEN conjunct1, rule_format, OF conjI[OF b(1) some]]
  note TC_alone = TC[THEN conjunct1, rule_format, OF conjI[OF b(1) none]]
  note TU_unbound = TU[THEN conjunct2, THEN conjunct2, THEN conjunct1, rule_format, OF b(2)]
  note T1_created = T1[THEN conjunct2, THEN conjunct2, THEN conjunct2, THEN conjunct1,
      rule_format, OF conjI[OF st bc]]
  note T1_collected = T1[THEN conjunct2, THEN conjunct2, THEN conjunct2, THEN conjunct2,
      THEN conjunct1]
  note T1_scenario = T1[THEN conjunct2, THEN conjunct2, THEN conjunct2, THEN conjunct2,
      THEN conjunct2, rule_format]
  from T1_bound obtain g where g: "registered_group example_world (identifier ?c1, NoneId) g"
    "get_channel_receivers example_world 13 ?c1 = ([(receivers_id ?c1, receivers ?c1), g], None)"
    by auto
  from TC_alone have gc: "get_channel_receivers ?wc 13 ?c1 = ([(receivers_id ?c1, receivers ?c1)], None)"
    by simp
  from TU_unbound obtain gs where gs:
    "get_channel_receivers example_world 11 ?cU = ((receivers_id ?cU, receivers ?cU) # gs, None)"
    "list_all2 (registered_group example_world)
       (filter (\<lambda>k'. k' \<noteq> (''started'', NoneId))
          (by_identifier (band example_world) (identifier ?cU))) gs"
    by auto
  from gs(2) have gs2: "list_all2 (registered_group example_world)
      [(''started'', ObjId 10), (''started'', ObjId 20)] gs"
    by (simp add: example_world_by_identifier)
  from T1_created have cr: "by_identifier (band w') ''stopped'' = [(''stopped'', NoneId)]"
    by (simp add: example_world_by_identifier)
  from T1_collected have co: "by_identifier (band (collect example_world (''started'', ObjId 10))) ''started'' =
        [(''started'', NoneId), (''started'', ObjId 20)]"
    by (simp add: example_world_by_identifier)
  have "\<exists>w3 cU c1.
      run world_init
        (visibility_actions ''started'' (example_owner 10) (example_owner 20)
           (?fu, 0) (?f1, 0) (?f2, 0) (11, 12) (13, 14) (15, 16)) = Some w3 \<and>
      heap w3 (fst (11::nat, 12::nat)) = Some cU \<and> heap w3 (fst (13::nat, 14::nat)) = Some c1 \<and>
      \<not> bound cU \<and> bound c1 \<and>
      Channel_send w3 all_alive (fst (13::nat, 14::nat)) c1 [] [] (\<lambda>i. 0) =
       ([Called ?f1 [] [], Called ?fu [] []], Inr [VStr ''B1'', VStr ''U'']) \<and>
      Channel_send w3 all_alive (fst (11::nat, 12::nat)) cU [] [] (\<lambda>i. 0) =
       ([Called ?fu [] [], Called ?f1 [] [], Called ?f2 [] []],
        Inr [VStr ''U'', VStr ''B1'', VStr ''B2''])"
    by (rule T1_scenario) (intro conjI sc)
  then obtain w3 cU c1 where w3:
    "run world_init
        (visibility_actions ''started'' (example_owner 10) (example_owner 20)
           (?fu, 0) (?f1, 0) (?f2, 0) (11, 12) (13, 14) (15, 16)) = Some w3"
    "heap w3 11 = Some cU" "heap w3 13 = Some c1" "\<not> bound cU" "bound c1"
    "Channel_send w3 all_alive 13 c1 [] [] (\<lambda>i. 0) =
       ([Called ?f1 [] [], Called ?fu [] []], Inr [VStr ''B1'', VStr ''U''])"
    "Channel_send w3 all_alive 11 cU [] [] (\<lambda>i. 0) =
       ([Called ?fu [] [], Called ?f1 [] [], Called ?f2 [] []],
        Inr [VStr ''U'', VStr ''B1'', VStr ''B2''])"
    unfolding fst_conv by blast
  have first: "\<exists>c1 cU g gs w' wc.
      heap example_world 13 = Some c1 \<and> bound c1 \<and>
      channels (band example_world) (identifier c1, NoneId) \<noteq> None \<and>
      registered_group example_world (identifier c1, NoneId) g \<and>
      get_channel_receivers example_world 13 c1 = ([(receivers_id c1, receivers c1), g], None) \<and>
      reachable (collect example_world (''started'', NoneId)) \<and>
      heap (collect example_world (''started'', NoneId)) 13 = Some c1 \<and>
      channels (band (collect example_world (''started'', NoneId))) (identifier c1, NoneId) = None \<and>
      get_channel_receivers (collect example_world (''started'', NoneId)) 13 c1 =
        ([(receivers_id c1, receivers c1)], None) \<and>
      channels (band example_world) (''started'', NoneId) =
        Some \<lparr>ref_target = 11, ref_key = (''started'', NoneId)\<rparr> \<and>
      heap example_world 11 = Some cU \<and> \<not> bound cU \<and>
      get_channel_receivers example_world 11 cU = ((receivers_id cU, receivers cU) # gs, None) \<and>
      list_all2 (registered_group example_world) [(''started'', ObjId 10), (''started'', ObjId 20)] gs \<and>
      channels (band example_world) (''stopped'', id_of None) = None \<and>
      Band_channel example_world ''stopped'' None (7, 8) = Inr (wc, w') \<and>
      by_identifier (band w') ''stopped'' = [(''stopped'', NoneId)] \<and>
      by_identifier (band (collect example_world (''started'', ObjId 10))) ''started'' =
        [(''started'', NoneId), (''started'', ObjId 20)]"
    using h1 hU hc b some none st bc g gc gs(1) gs2 cr co collected_world_reachable
      example_world_channels(1)
    by (intro exI[of _ ?c1] exI[of _ ?cU] exI[of _ g] exI[of _ gs] exI[of _ w'] exI[of _ wc])
       (simp only: chan_ref.simps simp_thms)
  have last: "\<exists>w3 cU c1.
      run world_init
        (visibility_actions ''started'' (example_owner 10) (example_owner 20)
           (?fu, 0) (?f1, 0) (?f2, 0) (11, 12) (13, 14) (15, 16)) = Some w3 \<and>
      heap w3 11 = Some cU \<and> heap w3 13 = Some c1 \<and> \<not> bound cU \<and> bound c1 \<and>
      snd (Channel_send w3 all_alive 13 c1 [] [] (\<lambda>i. 0)) = Inr [VStr ''B1'', VStr ''U''] \<and>
      snd (Channel_send w3 all_alive 11 cU [] [] (\<lambda>i. 0)) =
        Inr [VStr ''U'', VStr ''B1'', VStr ''B2'']"
    using w3 by (intro exI[of _ w3] exI[of _ cU] exI[of _ c1]) simp
  from example_world_reachable example_world_channels(2) first sc last show ?thesis
    by (simp only: simp_thms)
qed
section \<open>Sending through the Band\<close>

text \<open>
  Claim C1 says that \<open>Band.dispatch\<close> flattens the receiver groups, in group order and
  then connect order, before it calls the Dispatcher, so that \<open>Band.send\<close> returns the
  results of the receivers in that order. \<open>Band.dispatch\<close> passes what it gets to the
  Dispatcher as it is, and \<open>Band.send\<close> gives it the groups. Evaluated: on a new Band,
  \<open>send\<close> of an identifier calls the WeakSet of the Channel it created and ends with
  \<open>TypeError\<close>; in the example world, \<open>send\<close> of \<open>started\<close>, unbound or with the first
  owner, ends the same way after one call of a WeakSet, where \<open>Channel.send\<close> on the
  same Channels, which flattens in \<open>Channel.get_receivers\<close>, returns the three and the
  two results.
\<close>

theorem band_send_calls_the_groups:
  "snd (Band_send world_init all_alive ''x'' [] None [] (11, 12) (\<lambda>i. 0)) =
     ([Called (group_obj (12, WeakSet_empty)) [] []], Inl TypeError) \<and>
   Band_send example_world all_alive ''started'' [] None [] (7, 8) (\<lambda>i. 0) =
     (example_world,
      [Called (group_obj (12, \<lparr>refs = [WeakRef (plain_function 31 (VStr ''U'')) (IdOne 31)],
                                ids = [IdOne 31]\<rparr>)) [] []],
      Inl TypeError) \<and>
   Band_send example_world all_alive ''started'' [] (Some (example_owner 10)) [] (7, 8) (\<lambda>i. 0) =
     (example_world,
      [Called (group_obj (14, \<lparr>refs = [WeakRef (plain_function 32 (VStr ''B1'')) (IdOne 32)],
                                ids = [IdOne 32]\<rparr>)) [] []],
      Inl TypeError) \<and>
   snd (Channel_send example_world all_alive 11
      \<lparr>identifier = ''started'', parent = None, receivers_id = 12,
        receivers = \<lparr>refs = [WeakRef (plain_function 31 (VStr ''U'')) (IdOne 31)],
                     ids = [IdOne 31]\<rparr>\<rparr> [] [] (\<lambda>i. 0)) =
     Inr [VStr ''U'', VStr ''B1'', VStr ''B2''] \<and>
   snd (Channel_send example_world all_alive 13
      \<lparr>identifier = ''started'', parent = Some (example_owner 10), receivers_id = 14,
        receivers = \<lparr>refs = [WeakRef (plain_function 32 (VStr ''B1'')) (IdOne 32)],
                     ids = [IdOne 32]\<rparr>\<rparr> [] [] (\<lambda>i. 0)) =
     Inr [VStr ''B1'', VStr ''U'']"
proof -
  have 1: "snd (Band_send world_init all_alive ''x'' [] None [] (11, 12) (\<lambda>i. 0)) =
     ([Called (group_obj (12, WeakSet_empty)) [] []], Inl TypeError)"
    by (simp add: band_defs weakset_defs example_defs)
  have c: "Band_channel example_world ''started'' None (7, 8) =
      Inr (Some (11, \<lparr>identifier = ''started'', parent = None, receivers_id = 12,
        receivers = \<lparr>refs = [WeakRef (plain_function 31 (VStr ''U'')) (IdOne 31)],
                     ids = [IdOne 31]\<rparr>\<rparr>), example_world)"
    by (simp add: Band_channel_def example_world_band deref_def example_world_heap_all)
  have c': "Band_channel example_world ''started'' (Some (example_owner 10)) (7, 8) =
      Inr (Some (13, \<lparr>identifier = ''started'', parent = Some (example_owner 10), receivers_id = 14,
        receivers = \<lparr>refs = [WeakRef (plain_function 32 (VStr ''B1'')) (IdOne 32)],
                     ids = [IdOne 32]\<rparr>\<rparr>), example_world)"
    by (simp add: Band_channel_def example_world_band deref_def example_world_heap_all
          example_owner_def)
  have 2: "Band_send example_world all_alive ''started'' [] None [] (7, 8) (\<lambda>i. 0) =
     (example_world,
      [Called (group_obj (12, \<lparr>refs = [WeakRef (plain_function 31 (VStr ''U'')) (IdOne 31)],
                                ids = [IdOne 31]\<rparr>)) [] []],
      Inl TypeError)"
    unfolding Band_send_def c
    by (simp add: example_world_groups_unbound example_world_dispatcher dispatch_defs
          weakset_defs group_obj_def all_alive_def)
  have 3: "Band_send example_world all_alive ''started'' [] (Some (example_owner 10)) [] (7, 8) (\<lambda>i. 0) =
     (example_world,
      [Called (group_obj (14, \<lparr>refs = [WeakRef (plain_function 32 (VStr ''B1'')) (IdOne 32)],
                                ids = [IdOne 32]\<rparr>)) [] []],
      Inl TypeError)"
    unfolding Band_send_def c'
    by (simp add: example_world_groups_bound example_world_dispatcher dispatch_defs
          weakset_defs group_obj_def all_alive_def)
  from 1 2 3 show ?thesis
    by (simp add: example_world_send_unbound example_world_send_bound)
qed

end
